theory Spec2Isabelle
  imports Main "HOL-Library.Product_Lexorder" "HOL-Library.Sublist"
begin

section \<open>Air-cargo booking: data model\<close>

text \<open>
  The relational schema (schema.sql), one record per table row. Timestamps are whole
  seconds (DATETIME, TIMESTAMP); \<open>Date.now()\<close> is whole milliseconds. The bookings
  columns \<open>created_at\<close> and \<open>updated_at\<close> play no part in any operation below
  and are left out.
\<close>

datatype status = BOOKED | DEPARTED | ARRIVED | DELIVERED | CANCELLED

record booking_row =
  b_id :: nat
  b_user_id :: nat
  b_ref_id :: string
  b_origin :: string
  b_destination :: string
  b_pieces :: int
  b_weight_kg :: int
  b_status :: status
  b_version :: int

record booking_flight_row =
  bf_id :: nat
  bf_booking_id :: nat
  bf_flight_id :: string
  bf_sequence_order :: nat

record timeline_row =
  te_id :: nat
  te_booking_id :: nat
  te_event_type :: status
  te_location :: "string option"
  te_flight_id :: "string option"
  te_description :: string
  te_created_at :: nat

record flight_row =
  f_flight_id :: string
  f_flight_number :: string
  f_airline_name :: string
  f_departure_datetime :: int
  f_arrival_datetime :: int
  f_origin :: string
  f_destination :: string

text \<open>The database: the tables in insertion order and the AUTO_INCREMENT counters.\<close>

record store =
  users :: "nat list"
  flights :: "flight_row list"
  bookings :: "booking_row list"
  booking_flights :: "booking_flight_row list"
  timeline_events :: "timeline_row list"
  next_booking_id :: nat
  next_booking_flight_id :: nat
  next_event_id :: nat

datatype sql_error =
  ER_DUP_ENTRY | ER_NO_REFERENCED_ROW_2 | ER_DATA_TOO_LONG | ER_WARN_DATA_OUT_OF_RANGE

datatype error =
  LockUnavailable
  | BookingNotFound
  | CannotCancelArrived
  | CannotCancelDelivered
  | ConcurrentUpdate
  | SqlError sql_error

section \<open>The cache client (src/config/redis.js)\<close>

text \<open>
  One key space. A value is either the raw string written by \<open>acquireLock\<close> or the
  JSON text written by \<open>set\<close> (\<open>JSON.stringify(value)\<close>, where the value may be
  \<open>null\<close>); \<open>'j\<close> is the type of the cached objects. Every entry carries its
  absolute expiry in milliseconds, and an entry whose expiry has passed is absent.
  \<open>isConnected\<close> is the client's flag; \<open>failing\<close> says that the calls of the
  underlying client reject (the \<open>catch\<close> branches). \<open>calls\<close> logs the calls
  made on the underlying client.
\<close>

datatype 'j redis_val = RawString string | Serialized "'j option"

datatype cmd = SET_NX string | GET string | DEL string | SETEX string | EVAL string

record 'j redis_state =
  isConnected :: bool
  failing :: bool
  kv :: "string \<rightharpoonup> ('j redis_val \<times> nat)"
  calls :: "cmd list"

definition lookup :: "'j redis_state \<Rightarrow> nat \<Rightarrow> string \<Rightarrow> 'j redis_val option" where
  "lookup r now k =
     (case kv r k of
        None \<Rightarrow> None
      | Some (v, expires) \<Rightarrow> if now < expires then Some v else None)"

definition called :: "cmd \<Rightarrow> 'j redis_state \<Rightarrow> 'j redis_state" where
  "called c r = r\<lparr>calls := calls r @ [c]\<rparr>"

text \<open>The event handlers registered in \<open>connect\<close>.\<close>

definition on_connect :: "'j redis_state \<Rightarrow> 'j redis_state" where
  "on_connect r = r\<lparr>isConnected := True\<rparr>"

definition on_disconnect :: "'j redis_state \<Rightarrow> 'j redis_state" where
  "on_disconnect r = r\<lparr>isConnected := False\<rparr>"

text \<open>\<open>set(key, value, expireSeconds)\<close>, \<open>get(key)\<close>, \<open>del(key)\<close>.\<close>

definition redis_set ::
  "'j redis_state \<Rightarrow> nat \<Rightarrow> string \<Rightarrow> 'j option \<Rightarrow> nat \<Rightarrow> bool \<times> 'j redis_state" where
  "redis_set r now key val expireSeconds =
     (if \<not> isConnected r then (False, r)
      else if failing r then (False, called (SETEX key) r)
      else (True, called (SETEX key)
                    (r\<lparr>kv := (kv r)(key \<mapsto> (Serialized val, now + expireSeconds * 1000))\<rparr>)))"

text \<open>
  \<open>value ? JSON.parse(value) : null\<close>: a missing key gives \<open>null\<close>, a JSON text
  its value. A lock value (\<open>id:timestamp\<close>) is not JSON: \<open>JSON.parse\<close> throws and
  the \<open>catch\<close> returns \<open>null\<close>.
\<close>

definition redis_get :: "'j redis_state \<Rightarrow> nat \<Rightarrow> string \<Rightarrow> 'j option \<times> 'j redis_state" where
  "redis_get r now key =
     (if \<not> isConnected r then (None, r)
      else if failing r then (None, called (GET key) r)
      else (case lookup r now key of
              None \<Rightarrow> (None, called (GET key) r)
            | Some (Serialized j) \<Rightarrow> (j, called (GET key) r)
            | Some (RawString s) \<Rightarrow> (None, called (GET key) r)))"

definition redis_del :: "'j redis_state \<Rightarrow> string \<Rightarrow> bool \<times> 'j redis_state" where
  "redis_del r key =
     (if \<not> isConnected r then (False, r)
      else if failing r then (False, called (DEL key) r)
      else (True, called (DEL key) (r\<lparr>kv := (kv r)(key := None)\<rparr>)))"

subsection \<open>Distributed locking\<close>

text \<open>Decimal rendering of \<open>Date.now()\<close> inside a template string.\<close>

function dec :: "nat \<Rightarrow> string" where
  "dec n = (if n < 10 then [char_of (48 + n)]
            else dec (n div 10) @ [char_of (48 + n mod 10)])"
  by pat_completeness auto
termination
  by (relation "measure id") auto

declare dec.simps [simp del]

text \<open>
  \<open>acquireLock(lockKey, ttlSeconds, identifier)\<close>. \<open>fresh\<close> is the string
  \<open>`${Date.now()}-${Math.random()}`\<close> the client generates when no (or an empty)
  identifier is passed. \<open>SET key value PX ttl NX\<close> answers \<open>OK\<close> only when the
  key is absent.
\<close>

definition acquireLock ::
  "'j redis_state \<Rightarrow> nat \<Rightarrow> string \<Rightarrow> string \<Rightarrow> nat \<Rightarrow> string option
     \<Rightarrow> string option \<times> 'j redis_state" where
  "acquireLock r now fresh lockKey ttlSeconds identifier =
     (if \<not> isConnected r then (None, r)
      else
        let lockId = (case identifier of
                        None \<Rightarrow> fresh
                      | Some i \<Rightarrow> if i = [] then fresh else i);
            lockValue = lockId @ '':'' @ dec now;
            key = ''lock:'' @ lockKey
        in if failing r then (None, called (SET_NX key) r)
           else (case lookup r now key of
                   None \<Rightarrow>
                     (Some lockId,
                      called (SET_NX key)
                        (r\<lparr>kv := (kv r)(key \<mapsto> (RawString lockValue, now + ttlSeconds * 1000))\<rparr>))
                 | Some v \<Rightarrow> (None, called (SET_NX key) r)))"

text \<open>
  \<open>releaseLock(lockKey, lockId)\<close>: a \<open>GET\<close>, then the Lua compare-and-delete
  with the value that was read as its argument. \<open>between\<close> is whatever other clients
  do to the key space between the two calls; an \<open>EVAL\<close> that rejects is caught
  and releases nothing. A JSON text is stored under the
  \<open>booking:\<close> and \<open>routes:\<close> keys only, never under a \<open>lock:\<close> key; that case
  releases nothing.
\<close>

definition lua_compare_and_delete ::
  "'j redis_state \<Rightarrow> nat \<Rightarrow> string \<Rightarrow> string \<Rightarrow> nat \<times> 'j redis_state" where
  "lua_compare_and_delete r now key arg =
     (if lookup r now key = Some (RawString arg)
      then (1, r\<lparr>kv := (kv r)(key := None)\<rparr>)
      else (0, r))"

definition releaseLock ::
  "('j redis_state \<Rightarrow> 'j redis_state) \<Rightarrow> 'j redis_state \<Rightarrow> nat \<Rightarrow> string \<Rightarrow> string
     \<Rightarrow> bool \<times> 'j redis_state" where
  "releaseLock between r now lockKey lockId =
     (if \<not> isConnected r \<or> lockKey = [] \<or> lockId = [] then (False, r)
      else
        let key = ''lock:'' @ lockKey
        in if failing r then (False, called (GET key) r)
           else (case lookup r now key of
                   Some (RawString currentLockValue) \<Rightarrow>
                     if currentLockValue \<noteq> [] \<and> prefix (lockId @ '':'') currentLockValue
                     then
                       let r1 = between (called (GET key) r)
                       in if failing r1 then (False, called (EVAL key) r1)
                          else
                            let (result, r2) = lua_compare_and_delete r1 now key currentLockValue
                            in (result = 1, called (EVAL key) r2)
                     else (False, called (GET key) r)
                 | _ \<Rightarrow> (False, called (GET key) r)))"

text \<open>The booking cache: \<open>booking:{refId}\<close>, ten minutes.\<close>

definition cacheBooking ::
  "'j redis_state \<Rightarrow> nat \<Rightarrow> string \<Rightarrow> 'j option \<Rightarrow> bool \<times> 'j redis_state" where
  "cacheBooking r now refId bookingData = redis_set r now (''booking:'' @ refId) bookingData 600"

definition getCachedBooking ::
  "'j redis_state \<Rightarrow> nat \<Rightarrow> string \<Rightarrow> 'j option \<times> 'j redis_state" where
  "getCachedBooking r now refId = redis_get r now (''booking:'' @ refId)"

definition invalidateBookingCache :: "'j redis_state \<Rightarrow> string \<Rightarrow> bool \<times> 'j redis_state" where
  "invalidateBookingCache r refId = redis_del r (''booking:'' @ refId)"

section \<open>The persistence store (config/database.js)\<close>

text \<open>
  A pooled connection inside a transaction: \<open>committed\<close> is what the other sessions
  see, \<open>working\<close> what this transaction sees, its own writes included. \<open>others\<close>
  is a commit of other sessions while this transaction is open.
\<close>

record connection =
  committed :: store
  working :: store

definition beginTransaction :: "store \<Rightarrow> connection" where
  "beginTransaction db = \<lparr>committed = db, working = db\<rparr>"

definition commit :: "connection \<Rightarrow> store" where
  "commit c = working c"

definition rollback :: "connection \<Rightarrow> store" where
  "rollback c = committed c"

definition others :: "(store \<Rightarrow> store) \<Rightarrow> connection \<Rightarrow> connection" where
  "others env c = \<lparr>committed = env (committed c), working = env (working c)\<rparr>"

text \<open>
  \<open>transaction(callback)\<close>: commit when the callback returns, roll back and rethrow
  when it throws. The callback also acts on the cache client (\<open>'s\<close>), which no
  rollback undoes.
\<close>

definition transaction ::
  "(connection \<Rightarrow> 's \<Rightarrow> (error + 'a) \<times> connection \<times> 's) \<Rightarrow> store \<Rightarrow> 's
     \<Rightarrow> (error + 'a) \<times> store \<times> 's" where
  "transaction callback db s =
     (case callback (beginTransaction db) s of
        (Inr result, c, s') \<Rightarrow> (Inr result, commit c, s')
      | (Inl e, c, s') \<Rightarrow> (Inl e, rollback c, s'))"

subsection \<open>The statements the booking service executes\<close>

text \<open>\<open>SELECT ... FROM bookings WHERE ref_id = ?\<close>\<close>

definition select_booking :: "string \<Rightarrow> store \<Rightarrow> booking_row list" where
  "select_booking refId db = filter (\<lambda>b. b_ref_id b = refId) (bookings db)"

text \<open>
  \<open>UPDATE bookings SET status = ?, version = version + 1 WHERE ref_id = ? AND version = ?\<close>,
  returning \<open>affectedRows\<close>. \<open>version\<close> is a signed 32-bit INT column: a value
  beyond its range is refused (strict SQL mode, the server's default).
\<close>

definition update_status_versioned ::
  "status \<Rightarrow> string \<Rightarrow> int \<Rightarrow> store \<Rightarrow> sql_error + (nat \<times> store)" where
  "update_status_versioned st refId v db =
     (let matches = (\<lambda>b. b_ref_id b = refId \<and> b_version b = v)
      in if filter matches (bookings db) \<noteq> [] \<and> 2147483647 < v + 1
         then Inl ER_WARN_DATA_OUT_OF_RANGE
         else Inr (length (filter matches (bookings db)),
                   db\<lparr>bookings :=
                        map (\<lambda>b. if matches b
                                 then b\<lparr>b_status := st, b_version := b_version b + 1\<rparr>
                                 else b)
                            (bookings db)\<rparr>))"

text \<open>\<open>UPDATE bookings SET status = ? WHERE ref_id = ?\<close>\<close>

definition update_status :: "status \<Rightarrow> string \<Rightarrow> store \<Rightarrow> store" where
  "update_status st refId db =
     db\<lparr>bookings :=
          map (\<lambda>b. if b_ref_id b = refId then b\<lparr>b_status := st\<rparr> else b) (bookings db)\<rparr>"

text \<open>
  \<open>INSERT INTO timeline_events (booking_id, event_type, location, flight_id, description)\<close>;
  \<open>created_at\<close> defaults to the current second. The booking must exist (foreign key),
  \<open>location\<close> is VARCHAR(10) and \<open>flight_id\<close> VARCHAR(50).
\<close>

definition too_long :: "nat \<Rightarrow> string option \<Rightarrow> bool" where
  "too_long n v = (case v of None \<Rightarrow> False | Some s \<Rightarrow> n < length s)"

definition insert_timeline_event ::
  "nat \<Rightarrow> status \<Rightarrow> string option \<Rightarrow> string option \<Rightarrow> string \<Rightarrow> nat \<Rightarrow> store
     \<Rightarrow> sql_error + store" where
  "insert_timeline_event bookingId eventType location flightId description seconds db =
     (if too_long 10 location \<or> too_long 50 flightId then Inl ER_DATA_TOO_LONG
      else if bookingId \<notin> set (map b_id (bookings db)) then Inl ER_NO_REFERENCED_ROW_2
      else Inr (db\<lparr>timeline_events := timeline_events db @
                       [\<lparr>te_id = next_event_id db, te_booking_id = bookingId,
                         te_event_type = eventType, te_location = location,
                         te_flight_id = flightId, te_description = description,
                         te_created_at = seconds\<rparr>],
                    next_event_id := Suc (next_event_id db)\<rparr>))"

fun status_name :: "status \<Rightarrow> string" where
  "status_name BOOKED = ''BOOKED''"
| "status_name DEPARTED = ''DEPARTED''"
| "status_name ARRIVED = ''ARRIVED''"
| "status_name DELIVERED = ''DELIVERED''"
| "status_name CANCELLED = ''CANCELLED''"

text \<open>\<open>description || `Status updated to ${status}`\<close>\<close>

definition description_or_default :: "string option \<Rightarrow> status \<Rightarrow> string" where
  "description_or_default description st =
     (case description of
        None \<Rightarrow> ''Status updated to '' @ status_name st
      | Some d \<Rightarrow> if d = [] then ''Status updated to '' @ status_name st else d)"

section \<open>The lock-protected booking service (the BookingService of config/database.js)\<close>

text \<open>What \<open>getBookingHistory\<close> of this service returns and caches.\<close>

record timeline_entry =
  entry_event_type :: status
  entry_location :: "string option"
  entry_flight_id :: "string option"
  entry_description :: string
  entry_created_at :: nat

record history_locked =
  h_id :: nat
  h_ref_id :: string
  h_origin :: string
  h_destination :: string
  h_pieces :: int
  h_weight_kg :: int
  h_status :: status
  h_flights :: "(string \<times> nat) list"
  h_timeline :: "timeline_entry list"

record ack =
  ack_success :: bool
  ack_refId :: string
  ack_status :: status

text \<open>
  What an \<open>updateBookingStatus\<close> resolves to: the lock-protected service returns
  \<open>{success, refId, status}\<close>, the other one the result of \<open>getBookingHistory\<close>.
\<close>

datatype 'j update_result = Acknowledgement ack | Aggregate "'j option"

text \<open>
  The transaction callback of \<open>updateBookingStatus\<close>. \<open>env\<close> is what other
  sessions commit between this transaction's SELECT and its UPDATE.
\<close>

definition updateBookingStatus_tx ::
  "(store \<Rightarrow> store) \<Rightarrow> nat \<Rightarrow> string \<Rightarrow> status \<Rightarrow> string option \<Rightarrow> string option
     \<Rightarrow> string option \<Rightarrow> connection \<Rightarrow> 'j redis_state
     \<Rightarrow> (error + 'j update_result) \<times> connection \<times> 'j redis_state" where
  "updateBookingStatus_tx env now refId st location flightId description c r =
     (case select_booking refId (working c) of
        [] \<Rightarrow> (Inl BookingNotFound, c, r)
      | booking # rest \<Rightarrow>
          if st = CANCELLED \<and> b_status booking = ARRIVED then (Inl CannotCancelArrived, c, r)
          else
            let c1 = others env c
            in (case update_status_versioned st refId (b_version booking) (working c1) of
                  Inl e \<Rightarrow> (Inl (SqlError e), c1, r)
                | Inr (affectedRows, w2) \<Rightarrow>
                    if affectedRows = 0 then (Inl ConcurrentUpdate, c1\<lparr>working := w2\<rparr>, r)
                    else
                      (case insert_timeline_event (b_id booking) st location flightId
                              (description_or_default description st) (now div 1000) w2 of
                         Inl e \<Rightarrow> (Inl (SqlError e), c1\<lparr>working := w2\<rparr>, r)
                       | Inr w3 \<Rightarrow>
                           let (deleted, r') = invalidateBookingCache r refId
                           in (Inr (Acknowledgement
                                      \<lparr>ack_success = True, ack_refId = refId, ack_status = st\<rparr>),
                               c1\<lparr>working := w3\<rparr>, r'))))"

text \<open>
  \<open>updateBookingStatus(refId, status, location, flightId, description)\<close>: the lock,
  the transaction, and the release in \<open>finally\<close>. The lock error is thrown before
  the \<open>try\<close>, so nothing is released then.
\<close>

definition updateBookingStatus_locked ::
  "(store \<Rightarrow> store) \<Rightarrow> store \<Rightarrow> 'j redis_state \<Rightarrow> nat \<Rightarrow> string \<Rightarrow> string \<Rightarrow> status
     \<Rightarrow> string option \<Rightarrow> string option \<Rightarrow> string option
     \<Rightarrow> (error + 'j update_result) \<times> store \<times> 'j redis_state" where
  "updateBookingStatus_locked env db r now fresh refId st location flightId description =
     (let lockKey = ''booking_'' @ refId;
          (lockId, r1) = acquireLock r now fresh lockKey 30 None
      in case lockId of
           None \<Rightarrow> (Inl LockUnavailable, db, r1)
         | Some lid \<Rightarrow>
             if lid = [] then (Inl LockUnavailable, db, r1)
             else
               let (result, db', r2) =
                     transaction
                       (updateBookingStatus_tx env now refId st location flightId description)
                       db r1;
                   (released, r3) = releaseLock id r2 now lockKey lid
               in (result, db', r3))"

text \<open>\<open>getBookingHistory(refId)\<close>: the cache first, then three queries.\<close>

definition timeline_entry_of :: "timeline_row \<Rightarrow> timeline_entry" where
  "timeline_entry_of e =
     \<lparr>entry_event_type = te_event_type e, entry_location = te_location e,
      entry_flight_id = te_flight_id e, entry_description = te_description e,
      entry_created_at = te_created_at e\<rparr>"

definition hydrate_locked :: "store \<Rightarrow> booking_row \<Rightarrow> history_locked" where
  "hydrate_locked db booking =
     \<lparr>h_id = b_id booking, h_ref_id = b_ref_id booking, h_origin = b_origin booking,
      h_destination = b_destination booking, h_pieces = b_pieces booking,
      h_weight_kg = b_weight_kg booking, h_status = b_status booking,
      h_flights =
        map (\<lambda>row. (bf_flight_id row, bf_sequence_order row))
          (sort_key bf_sequence_order
             (filter (\<lambda>row. bf_booking_id row = b_id booking) (booking_flights db))),
      h_timeline =
        map timeline_entry_of
          (sort_key te_created_at
             (filter (\<lambda>e. te_booking_id e = b_id booking) (timeline_events db)))\<rparr>"

definition getBookingHistory_locked ::
  "store \<Rightarrow> history_locked redis_state \<Rightarrow> nat \<Rightarrow> string
     \<Rightarrow> history_locked option \<times> history_locked redis_state" where
  "getBookingHistory_locked db r now refId =
     (let (cached, r1) = getCachedBooking r now refId
      in case cached of
           Some h \<Rightarrow> (Some h, r1)
         | None \<Rightarrow>
             (case select_booking refId db of
                [] \<Rightarrow> (None, r1)
              | booking # rest \<Rightarrow>
                  let h = hydrate_locked db booking;
                      (stored, r2) = cacheBooking r1 now refId (Some h)
                  in (Some h, r2)))"

section \<open>The booking service without lock and version check (BookingService, second file)\<close>

record leg =
  leg_flight_id :: string
  leg_sequence_order :: nat
  leg_flight_number :: string
  leg_airline_name :: string

record history_direct =
  d_booking :: booking_row
  d_flights :: "leg list"
  d_timeline :: "timeline_row list"






text \<open>
  \<open>getBookingHistory(refId, forceDb)\<close>: the booking row, its legs joined with the
  flights in sequence order, its timeline by creation time and id.
\<close>

definition hydrate_direct :: "store \<Rightarrow> booking_row \<Rightarrow> history_direct" where
  "hydrate_direct db booking =
     \<lparr>d_booking = booking,
      d_flights =
        map (\<lambda>(bf, f). \<lparr>leg_flight_id = bf_flight_id bf,
                         leg_sequence_order = bf_sequence_order bf,
                         leg_flight_number = f_flight_number f,
                         leg_airline_name = f_airline_name f\<rparr>)
          (sort_key (\<lambda>(bf, f). bf_sequence_order bf)
             (concat
                (map (\<lambda>bf. map (Pair bf)
                              (filter (\<lambda>f. bf_flight_id bf = f_flight_id f) (flights db)))
                   (filter (\<lambda>bf. bf_booking_id bf = b_id booking) (booking_flights db))))),
      d_timeline =
        sort_key (\<lambda>e. (te_created_at e, te_id e))
          (filter (\<lambda>e. te_booking_id e = b_id booking) (timeline_events db))\<rparr>"

definition query_history_direct ::
  "store \<Rightarrow> history_direct redis_state \<Rightarrow> nat \<Rightarrow> string
     \<Rightarrow> history_direct option \<times> history_direct redis_state" where
  "query_history_direct db r now refId =
     (case select_booking refId db of
        [] \<Rightarrow> (None, r)
      | booking # rest \<Rightarrow>
          let h = hydrate_direct db booking;
              (stored, r') = cacheBooking r now refId (Some h)
          in (Some h, r'))"

definition getBookingHistory_direct ::
  "store \<Rightarrow> history_direct redis_state \<Rightarrow> nat \<Rightarrow> string \<Rightarrow> bool
     \<Rightarrow> history_direct option \<times> history_direct redis_state" where
  "getBookingHistory_direct db r now refId forceDb =
     (if \<not> forceDb
      then (let (cached, r1) = getCachedBooking r now refId
            in case cached of
                 Some h \<Rightarrow> (Some h, r1)
               | None \<Rightarrow> query_history_direct db r1 now refId)
      else query_history_direct db r now refId)"


text \<open>\<open>updateBookingStatus(refId, status, {location, description})\<close>\<close>

definition updateBookingStatus_direct_tx ::
  "nat \<Rightarrow> string \<Rightarrow> status \<Rightarrow> string option \<Rightarrow> string option \<Rightarrow> connection \<Rightarrow> 's
     \<Rightarrow> (error + unit) \<times> connection \<times> 's" where
  "updateBookingStatus_direct_tx now refId st location description c s =
     (case select_booking refId (working c) of
        [] \<Rightarrow> (Inl BookingNotFound, c, s)
      | booking # rest \<Rightarrow>
          if st = CANCELLED \<and> b_status booking = DELIVERED
          then (Inl CannotCancelDelivered, c, s)
          else
            let w1 = update_status st refId (working c)
            in (case insert_timeline_event (b_id booking) st location None
                       (description_or_default description st) (now div 1000) w1 of
                  Inl e \<Rightarrow> (Inl (SqlError e), c\<lparr>working := w1\<rparr>, s)
                | Inr w2 \<Rightarrow> (Inr (), c\<lparr>working := w2\<rparr>, s)))"

definition updateBookingStatus_direct ::
  "store \<Rightarrow> history_direct redis_state \<Rightarrow> nat \<Rightarrow> string \<Rightarrow> status \<Rightarrow> string option
     \<Rightarrow> string option
     \<Rightarrow> (error + history_direct update_result) \<times> store \<times> history_direct redis_state" where
  "updateBookingStatus_direct db r now refId st location description =
     (case transaction (updateBookingStatus_direct_tx now refId st location description) db r of
        (Inl e, db', r') \<Rightarrow> (Inl e, db', r')
      | (Inr done, db', r1) \<Rightarrow>
          let (deleted, r2) = invalidateBookingCache r1 refId;
              (fresh_data, r3) = getBookingHistory_direct db' r2 now refId True
          in (Inr (Aggregate fresh_data), db', r3))"

section \<open>The route finder (FlightService)\<close>

text \<open>
  \<open>TIMESTAMPDIFF(MINUTE, a, b)\<close>: the whole minutes from \<open>a\<close> to \<open>b\<close>,
  truncated towards zero.
\<close>

definition timestampdiff_minute :: "int \<Rightarrow> int \<Rightarrow> int" where
  "timestampdiff_minute a b = (if a \<le> b then (b - a) div 60 else - ((a - b) div 60))"

text \<open>
  \<open>moment(departureDate).startOf('day')\<close> and \<open>.endOf('day')\<close>, formatted to the
  second; the process and the connection pool both run in UTC.
\<close>

definition startOfDay :: "int \<Rightarrow> int" where
  "startOfDay t = t - t mod 86400"

definition endOfDay :: "int \<Rightarrow> int" where
  "endOfDay t = startOfDay t + 86399"

record segment =
  seg_flight_id :: string
  seg_flight_number :: string
  seg_airline_name :: string
  seg_departure_datetime :: int
  seg_arrival_datetime :: int
  seg_origin :: string
  seg_destination :: string
  segment_order :: nat

record transit_route =
  route_type :: string
  total_duration_minutes :: int
  layover_minutes :: int
  stops :: nat
  transit_hub :: string
  segments :: "segment list"

text \<open>The WHERE clause of the self-join, on a pair (f1, f2) with \<open>f1.destination = f2.origin\<close>.\<close>

definition transit_where :: "int \<Rightarrow> string \<Rightarrow> string \<Rightarrow> int \<Rightarrow> int \<Rightarrow> flight_row \<times> flight_row \<Rightarrow> bool" where
  "transit_where now orig dest startDate endDate p =
     (case p of (f1, f2) \<Rightarrow>
        f_origin f1 = orig
        \<and> f_destination f2 = dest
        \<and> startDate \<le> f_departure_datetime f1 \<and> f_departure_datetime f1 \<le> endDate
        \<and> now \<le> f_departure_datetime f1
        \<and> f_departure_datetime f2 \<le> f_departure_datetime f1 + 86400
        \<and> 60 \<le> timestampdiff_minute (f_arrival_datetime f1) (f_departure_datetime f2)
        \<and> timestampdiff_minute (f_arrival_datetime f1) (f_departure_datetime f2) \<le> 1440
        \<and> f_arrival_datetime f1 < f_departure_datetime f2)"

definition total_duration :: "flight_row \<times> flight_row \<Rightarrow> int" where
  "total_duration p =
     (case p of (f1, f2) \<Rightarrow>
        timestampdiff_minute (f_departure_datetime f1) (f_arrival_datetime f2))"

text \<open>\<open>ORDER BY total_duration ASC, f1.departure_datetime ASC LIMIT 50\<close>\<close>

definition transit_rows ::
  "flight_row list \<Rightarrow> int \<Rightarrow> string \<Rightarrow> string \<Rightarrow> int \<Rightarrow> (flight_row \<times> flight_row) list" where
  "transit_rows fl now orig dest departureDate =
     take 50
       (sort_key (\<lambda>p. (total_duration p, f_departure_datetime (fst p)))
          (filter (transit_where now orig dest (startOfDay departureDate) (endOfDay departureDate))
             (concat
                (map (\<lambda>f1. map (Pair f1)
                              (filter (\<lambda>f2. f_destination f1 = f_origin f2) fl))
                   fl))))"

definition route_of :: "flight_row \<times> flight_row \<Rightarrow> transit_route" where
  "route_of p =
     (case p of (f1, f2) \<Rightarrow>
        \<lparr>route_type = ''transit'',
         total_duration_minutes = total_duration (f1, f2),
         layover_minutes =
           timestampdiff_minute (f_arrival_datetime f1) (f_departure_datetime f2),
         stops = 1,
         transit_hub = f_destination f1,
         segments =
           [\<lparr>seg_flight_id = f_flight_id f1, seg_flight_number = f_flight_number f1,
             seg_airline_name = f_airline_name f1,
             seg_departure_datetime = f_departure_datetime f1,
             seg_arrival_datetime = f_arrival_datetime f1,
             seg_origin = f_origin f1, seg_destination = f_destination f1,
             segment_order = 1\<rparr>,
            \<lparr>seg_flight_id = f_flight_id f2, seg_flight_number = f_flight_number f2,
             seg_airline_name = f_airline_name f2,
             seg_departure_datetime = f_departure_datetime f2,
             seg_arrival_datetime = f_arrival_datetime f2,
             seg_origin = f_origin f2, seg_destination = f_destination f2,
             segment_order = 2\<rparr>]\<rparr>)"

definition getTransitRoutes ::
  "flight_row list \<Rightarrow> int \<Rightarrow> string \<Rightarrow> string \<Rightarrow> int \<Rightarrow> transit_route list" where
  "getTransitRoutes fl now orig dest departureDate =
     map route_of (transit_rows fl now orig dest departureDate)"

text \<open>What the claim about a transit route says of one returned route.\<close>

definition feasible_transit :: "int \<Rightarrow> string \<Rightarrow> string \<Rightarrow> int \<Rightarrow> transit_route \<Rightarrow> bool" where
  "feasible_transit now orig dest departureDate rt =
     (case segments rt of
        [leg1, leg2] \<Rightarrow>
          seg_origin leg1 = orig
          \<and> seg_destination leg1 = seg_origin leg2
          \<and> seg_destination leg1 = transit_hub rt
          \<and> seg_destination leg2 = dest
          \<and> segment_order leg1 = 1 \<and> segment_order leg2 = 2
          \<and> startOfDay departureDate \<le> seg_departure_datetime leg1
          \<and> seg_departure_datetime leg1 \<le> endOfDay departureDate
          \<and> now \<le> seg_departure_datetime leg1
          \<and> seg_departure_datetime leg2 \<le> seg_departure_datetime leg1 + 86400
          \<and> seg_arrival_datetime leg1 < seg_departure_datetime leg2
          \<and> layover_minutes rt =
              timestampdiff_minute (seg_arrival_datetime leg1) (seg_departure_datetime leg2)
          \<and> 60 \<le> layover_minutes rt \<and> layover_minutes rt \<le> 1440
          \<and> 3600 \<le> seg_departure_datetime leg2 - seg_arrival_datetime leg1
          \<and> seg_departure_datetime leg2 - seg_arrival_datetime leg1 < 1441 * 60
          \<and> total_duration_minutes rt =
              timestampdiff_minute (seg_departure_datetime leg1) (seg_arrival_datetime leg2)
      | _ \<Rightarrow> False)"

definition route_key :: "transit_route \<Rightarrow> int \<times> int" where
  "route_key rt =
     (total_duration_minutes rt,
      (case segments rt of leg1 # rest \<Rightarrow> seg_departure_datetime leg1 | [] \<Rightarrow> 0))"

section \<open>Observations and example data\<close>

text \<open>The holder part of a lock value \<open>lockId:timestamp\<close>: what precedes the first colon.\<close>

definition holder_of :: "string \<Rightarrow> string" where
  "holder_of v = takeWhile (\<lambda>c. c \<noteq> CHR '':'') v"

text \<open>The version the service reads for a reference code: that of the first row selected.\<close>

definition version_of :: "store \<Rightarrow> string \<Rightarrow> int option" where
  "version_of db refId =
     (case select_booking refId db of [] \<Rightarrow> None | booking # rest \<Rightarrow> Some (b_version booking))"

definition status_of :: "store \<Rightarrow> string \<Rightarrow> status option" where
  "status_of db refId =
     (case select_booking refId db of [] \<Rightarrow> None | booking # rest \<Rightarrow> Some (b_status booking))"

definition day0 :: int where
  "day0 = 1728000000"

definition ex_flights :: "flight_row list" where
  "ex_flights =
     [\<lparr>f_flight_id = ''AI101_20241004'', f_flight_number = ''AI101'', f_airline_name = ''Air India'',
       f_departure_datetime = day0 + 36000, f_arrival_datetime = day0 + 43200,
       f_origin = ''DEL'', f_destination = ''HYD''\<rparr>,
      \<lparr>f_flight_id = ''6E202_20241004'', f_flight_number = ''6E202'', f_airline_name = ''IndiGo'',
       f_departure_datetime = day0 + 50400, f_arrival_datetime = day0 + 57600,
       f_origin = ''HYD'', f_destination = ''BLR''\<rparr>,
      \<lparr>f_flight_id = ''SG303_20241004'', f_flight_number = ''SG303'', f_airline_name = ''SpiceJet'',
       f_departure_datetime = day0 + 46800, f_arrival_datetime = day0 + 54000,
       f_origin = ''HYD'', f_destination = ''BLR''\<rparr>,
      \<lparr>f_flight_id = ''UK404_20241004'', f_flight_number = ''UK404'', f_airline_name = ''Vistara'',
       f_departure_datetime = day0 + 39600, f_arrival_datetime = day0 + 50400,
       f_origin = ''DEL'', f_destination = ''BLR''\<rparr>]"

definition ex_booking :: "status \<Rightarrow> int \<Rightarrow> booking_row" where
  "ex_booking st v =
     \<lparr>b_id = 1, b_user_id = 7, b_ref_id = ''AC1'', b_origin = ''DEL'', b_destination = ''BLR'',
      b_pieces = 2, b_weight_kg = 10, b_status = st, b_version = v\<rparr>"

definition ex_store :: "status \<Rightarrow> int \<Rightarrow> store" where
  "ex_store st v =
     \<lparr>users = [7], flights = ex_flights, bookings = [ex_booking st v], booking_flights = [],
      timeline_events =
        [\<lparr>te_id = 1, te_booking_id = 1, te_event_type = BOOKED, te_location = Some ''DEL'',
          te_flight_id = None, te_description = ''Booking created successfully'',
          te_created_at = 1727999000\<rparr>],
      next_booking_id = 2, next_booking_flight_id = 1, next_event_id = 2\<rparr>"

definition ex_redis :: "'j redis_state" where
  "ex_redis = \<lparr>isConnected = True, failing = False, kv = Map.empty, calls = []\<rparr>"

text \<open>A key space in which another holder has the lock of booking AC1 until 30100 ms.\<close>

definition ex_redis_held :: "'j redis_state" where
  "ex_redis_held =
     \<lparr>isConnected = True, failing = False,
      kv = [''lock:booking_AC1'' \<mapsto> (RawString ''9-0.25:100'', 30100)], calls = []\<rparr>"

text \<open>The rows after a version-guarded status write, and the event a status update appends.\<close>

definition bumped :: "status \<Rightarrow> string \<Rightarrow> int \<Rightarrow> booking_row list \<Rightarrow> booking_row list" where
  "bumped st refId v rows =
     map (\<lambda>b. if b_ref_id b = refId \<and> b_version b = v
              then b\<lparr>b_status := st, b_version := b_version b + 1\<rparr>
              else b) rows"

definition new_event ::
  "store \<Rightarrow> nat \<Rightarrow> status \<Rightarrow> string option \<Rightarrow> string option \<Rightarrow> string \<Rightarrow> nat \<Rightarrow> timeline_row" where
  "new_event db bookingId st location flightId description seconds =
     \<lparr>te_id = next_event_id db, te_booking_id = bookingId, te_event_type = st,
      te_location = location, te_flight_id = flightId, te_description = description,
      te_created_at = seconds\<rparr>"

text \<open>Another session that marks booking AC1, version 1, as arrived and commits.\<close>

definition other_writer :: "store \<Rightarrow> store" where
  "other_writer db =
     (case update_status_versioned ARRIVED ''AC1'' 1 db of
        Inl e \<Rightarrow> db
      | Inr (n, db') \<Rightarrow> db')"




text \<open>
  What the cache client's event handlers do between two reads, and a series of
  \<open>getBookingHistory\<close> calls, each at its own time, after such events.
\<close>

datatype client_event = Connects | Disconnects | StartsFailing | StopsFailing

fun apply_event :: "client_event \<Rightarrow> 'j redis_state \<Rightarrow> 'j redis_state" where
  "apply_event Connects r = on_connect r"
| "apply_event Disconnects r = on_disconnect r"
| "apply_event StartsFailing r = r\<lparr>failing := True\<rparr>"
| "apply_event StopsFailing r = r\<lparr>failing := False\<rparr>"

fun reads_locked ::
  "store \<Rightarrow> history_locked redis_state \<Rightarrow> string \<Rightarrow> (client_event list \<times> nat) list
     \<Rightarrow> history_locked option list" where
  "reads_locked db r refId [] = []"
| "reads_locked db r refId ((events, now) # rest) =
     (case getBookingHistory_locked db (fold apply_event events r) now refId of
        (h, r') \<Rightarrow> h # reads_locked db r' refId rest)"

fun reads_direct ::
  "store \<Rightarrow> history_direct redis_state \<Rightarrow> string \<Rightarrow> (client_event list \<times> nat) list
     \<Rightarrow> history_direct option list" where
  "reads_direct db r refId [] = []"
| "reads_direct db r refId ((events, now) # rest) =
     (case getBookingHistory_direct db (fold apply_event events r) now refId False of
        (h, r') \<Rightarrow> h # reads_direct db r' refId rest)"

text \<open>
  The cache holds nothing for the reference code that a read would return and that
  differs from what the store gives.
\<close>

definition cache_coherent ::
  "(store \<Rightarrow> booking_row \<Rightarrow> 'j) \<Rightarrow> store \<Rightarrow> 'j redis_state \<Rightarrow> string \<Rightarrow> bool" where
  "cache_coherent hydrate db r refId =
     (case kv r (''booking:'' @ refId) of
        Some (Serialized (Some h), expires) \<Rightarrow>
          (case select_booking refId db of
             [] \<Rightarrow> False
           | booking # rest \<Rightarrow> h = hydrate db booking)
      | _ \<Rightarrow> True)"

text \<open>The store after the transaction of the unguarded status update.\<close>

definition direct_written :: "store \<Rightarrow> booking_row \<Rightarrow> nat \<Rightarrow> string \<Rightarrow> status \<Rightarrow> string option \<Rightarrow> string option \<Rightarrow> store" where
  "direct_written db booking now refId st location description =
     (update_status st refId db)
       \<lparr>timeline_events := timeline_events db @
          [new_event db (b_id booking) st location None (description_or_default description st) (now div 1000)],
        next_event_id := Suc (next_event_id db)\<rparr>"


text \<open>
  The cache client after a \<open>getBookingHistory\<close> of booking AC1 at 1000 ms has cached
  it, and the schedule of three later reads: one at once, one after a disconnect, one
  after the reconnect.
\<close>

definition ex_redis_after_read :: "history_direct redis_state" where
  "ex_redis_after_read =
     snd (getBookingHistory_direct (ex_store BOOKED 1) ex_redis 1000 ''AC1'' False)"

definition ex_schedule :: "(client_event list \<times> nat) list" where
  "ex_schedule = [([], 6000), ([Disconnects], 7000), ([Connects, StopsFailing], 8000)]"




section \<open>The route finder: the cached entry point\<close>
















section \<open>The lock-protected status update with another request in between\<close>

text \<open>
  \<open>transaction(callback)\<close> once more, with what the other requests do while it is
  open: \<open>meanwhile\<close> acts on the cache client between the moment the callback has
  returned and the commit (or rollback), and sees the committed rows only.
\<close>

definition transaction_interleaved ::
  "(connection \<Rightarrow> 's \<Rightarrow> (error + 'a) \<times> connection \<times> 's) \<Rightarrow> (store \<Rightarrow> 's \<Rightarrow> 's) \<Rightarrow> store \<Rightarrow> 's
     \<Rightarrow> (error + 'a) \<times> store \<times> 's" where
  "transaction_interleaved callback meanwhile db s =
     (case callback (beginTransaction db) s of
        (Inr result, c, s') \<Rightarrow> (Inr result, commit c, meanwhile (committed c) s')
      | (Inl e, c, s') \<Rightarrow> (Inl e, rollback c, meanwhile (committed c) s'))"

definition updateBookingStatus_locked_interleaved ::
  "(store \<Rightarrow> 'j redis_state \<Rightarrow> 'j redis_state) \<Rightarrow> store \<Rightarrow> 'j redis_state \<Rightarrow> nat \<Rightarrow> string
     \<Rightarrow> string \<Rightarrow> status \<Rightarrow> string option \<Rightarrow> string option \<Rightarrow> string option
     \<Rightarrow> (error + 'j update_result) \<times> store \<times> 'j redis_state" where
  "updateBookingStatus_locked_interleaved meanwhile db r now fresh refId st location flightId
       description =
     (let lockKey = ''booking_'' @ refId;
          (lockId, r1) = acquireLock r now fresh lockKey 30 None
      in case lockId of
           None \<Rightarrow> (Inl LockUnavailable, db, r1)
         | Some lid \<Rightarrow>
             if lid = [] then (Inl LockUnavailable, db, r1)
             else
               let (result, db', r2) =
                     transaction_interleaved
                       (updateBookingStatus_tx id now refId st location flightId description)
                       meanwhile db r1;
                   (released, r3) = releaseLock id r2 now lockKey lid
               in (result, db', r3))"

text \<open>One \<open>getBookingHistory\<close> of booking AC1 by another request, at 5001 ms.\<close>

definition concurrent_read :: "store \<Rightarrow> history_locked redis_state \<Rightarrow> history_locked redis_state" where
  "concurrent_read db r = snd (getBookingHistory_locked db r 5001 ''AC1'')"

text \<open>
  Booking AC1 is BOOKED, version 1, nothing is cached and nobody holds the lock. One
  request sets it to DEPARTED at 5000 ms while another reads its history at 5001 ms,
  after the first has deleted the cache entry and before its transaction commits.
\<close>

definition ex_interleaved_update ::
  "(error + history_locked update_result) \<times> store \<times> history_locked redis_state" where
  "ex_interleaved_update =
     updateBookingStatus_locked_interleaved concurrent_read (ex_store BOOKED 1) ex_redis 5000
       ''8-0.1'' ''AC1'' DEPARTED (Some ''DEL'') None None"

text \<open>
  The service without lock under the same interleaving: its transaction has no cache
  call inside, the entry is deleted after the commit.
\<close>

definition updateBookingStatus_direct_interleaved ::
  "(store \<Rightarrow> history_direct redis_state \<Rightarrow> history_direct redis_state) \<Rightarrow> store
     \<Rightarrow> history_direct redis_state \<Rightarrow> nat \<Rightarrow> string \<Rightarrow> status \<Rightarrow> string option
     \<Rightarrow> string option
     \<Rightarrow> (error + history_direct update_result) \<times> store \<times> history_direct redis_state" where
  "updateBookingStatus_direct_interleaved meanwhile db r now refId st location description =
     (case transaction_interleaved
             (updateBookingStatus_direct_tx now refId st location description) meanwhile db r of
        (Inl e, db', r') \<Rightarrow> (Inl e, db', r')
      | (Inr done, db', r1) \<Rightarrow>
          let (deleted, r2) = invalidateBookingCache r1 refId;
              (fresh_data, r3) = getBookingHistory_direct db' r2 now refId True
          in (Inr (Aggregate fresh_data), db', r3))"

definition concurrent_read_direct ::
  "store \<Rightarrow> history_direct redis_state \<Rightarrow> history_direct redis_state" where
  "concurrent_read_direct db r = snd (getBookingHistory_direct db r 5001 ''AC1'' False)"

definition ex_interleaved_update_direct ::
  "(error + history_direct update_result) \<times> store \<times> history_direct redis_state" where
  "ex_interleaved_update_direct =
     updateBookingStatus_direct_interleaved concurrent_read_direct (ex_store BOOKED 1) ex_redis
       5000 ''AC1'' DEPARTED (Some ''DEL'') None"

section \<open>Route finder: every transit route is feasible, ordered and capped\<close>

lemma route_key_of: "route_key (route_of p) = (total_duration p, f_departure_datetime (fst p))"
  by (cases p) (simp add: route_key_def route_of_def)

lemma layover_seconds:
  assumes "a < d" "60 \<le> timestampdiff_minute a d" "timestampdiff_minute a d \<le> 1440"
  shows "3600 \<le> d - a \<and> d - a < 1441 * 60"
  using assms unfolding timestampdiff_minute_def by (simp split: if_splits) linarith

lemma feasible_route_of:
  assumes "transit_where now orig dest (startOfDay d) (endOfDay d) p"
    and "f_destination (fst p) = f_origin (snd p)"
  shows "feasible_transit now orig dest d (route_of p)"
proof (cases p)
  case (Pair f1 f2)
  with assms have w: "f_arrival_datetime f1 < f_departure_datetime f2"
      "60 \<le> timestampdiff_minute (f_arrival_datetime f1) (f_departure_datetime f2)"
      "timestampdiff_minute (f_arrival_datetime f1) (f_departure_datetime f2) \<le> 1440"
    by (simp_all add: transit_where_def)
  from layover_seconds[OF w] Pair assms show ?thesis
    by (simp add: feasible_transit_def route_of_def transit_where_def total_duration_def)
qed

lemma transit_rows_selected:
  assumes "p \<in> set (transit_rows fl now orig dest d)"
  shows "transit_where now orig dest (startOfDay d) (endOfDay d) p
         \<and> f_destination (fst p) = f_origin (snd p)"
proof -
  from assms have "p \<in> set (sort_key (\<lambda>p. (total_duration p, f_departure_datetime (fst p)))
          (filter (transit_where now orig dest (startOfDay d) (endOfDay d))
             (concat (map (\<lambda>f1. map (Pair f1)
                                  (filter (\<lambda>f2. f_destination f1 = f_origin f2) fl)) fl))))"
    unfolding transit_rows_def by (rule in_set_takeD)
  then show ?thesis by auto
qed

lemma transit_rows_sorted:
  "sorted (map (\<lambda>p. (total_duration p, f_departure_datetime (fst p)))
               (transit_rows fl now orig dest d))"
  unfolding transit_rows_def
  by (simp add: take_map[symmetric])

text \<open>
  One query: every route that \<open>getTransitRoutes\<close> computes satisfies the conditions
  at the \<open>NOW()\<close> of the query, and the list is ordered and has at most 50 routes.
\<close>

lemma getTransitRoutes_feasible_sorted_capped:
  "(\<forall>rt \<in> set (getTransitRoutes fl now orig dest d). feasible_transit now orig dest d rt)
   \<and> sorted (map route_key (getTransitRoutes fl now orig dest d))
   \<and> length (getTransitRoutes fl now orig dest d) \<le> 50"
proof (intro conjI ballI)
  fix rt assume "rt \<in> set (getTransitRoutes fl now orig dest d)"
  then obtain p where p: "p \<in> set (transit_rows fl now orig dest d)" and rt: "rt = route_of p"
    by (auto simp: getTransitRoutes_def)
  from transit_rows_selected[OF p] show "feasible_transit now orig dest d rt"
    unfolding rt by (simp add: feasible_route_of)
next
  have "map route_key (getTransitRoutes fl now orig dest d)
        = map (\<lambda>p. (total_duration p, f_departure_datetime (fst p)))
              (transit_rows fl now orig dest d)"
    by (simp add: getTransitRoutes_def route_key_of comp_def)
  then show "sorted (map route_key (getTransitRoutes fl now orig dest d))"
    by (simp add: transit_rows_sorted)
next
  show "length (getTransitRoutes fl now orig dest d) \<le> 50"
    by (simp add: getTransitRoutes_def transit_rows_def)
qed

lemma getTransitRoutes_example:
  "map (\<lambda>rt. (transit_hub rt, total_duration_minutes rt, layover_minutes rt))
       (getTransitRoutes ex_flights day0 ''DEL'' ''BLR'' (day0 + 3600))
     = [(''HYD'', 300, 60), (''HYD'', 360, 120)]
   \<and> list_all (feasible_transit day0 ''DEL'' ''BLR'' (day0 + 3600))
         (getTransitRoutes ex_flights day0 ''DEL'' ''BLR'' (day0 + 3600))
   \<and> sorted (map route_key (getTransitRoutes ex_flights day0 ''DEL'' ''BLR'' (day0 + 3600)))"
proof -
  have "map (\<lambda>rt. (transit_hub rt, total_duration_minutes rt, layover_minutes rt))
          (getTransitRoutes ex_flights day0 ''DEL'' ''BLR'' (day0 + 3600))
        = [(''HYD'', 300, 60), (''HYD'', 360, 120)]"
    by code_simp
  with getTransitRoutes_feasible_sorted_capped[of ex_flights day0 "''DEL''" "''BLR''" "day0 + 3600"]
  show ?thesis unfolding list_all_iff by blast
qed


section \<open>Route finder: the cached entry point\<close>

























section \<open>The lock manager\<close>

lemma holder_of_prefix:
  assumes "CHR '':'' \<notin> set tok" and "prefix (tok @ '':'') v"
  shows "holder_of v = tok"
proof -
  from assms(2) obtain rest where "v = (tok @ '':'') @ rest"
    by (auto simp: prefix_def)
  then have "v = tok @ CHR '':'' # rest" by simp
  then show ?thesis using assms(1) by (simp add: holder_of_def takeWhile_append)
qed

lemma releaseLock_true:
  assumes "releaseLock between r now lockKey tok = (True, r')"
  shows "\<exists>v. lookup r now (''lock:'' @ lockKey) = Some (RawString v)
            \<and> lookup (between (called (GET (''lock:'' @ lockKey)) r)) now (''lock:'' @ lockKey)
                = Some (RawString v)
            \<and> prefix (tok @ '':'') v
            \<and> kv r' = (kv (between (called (GET (''lock:'' @ lockKey)) r)))
                         (''lock:'' @ lockKey := None)"
  using assms
  by (auto simp add: releaseLock_def Let_def called_def lua_compare_and_delete_def
      split: if_splits option.splits redis_val.splits prod.splits)

lemma releaseLock_false:
  assumes "releaseLock between r now lockKey tok = (False, r')"
  shows "kv r' = kv r \<or> kv r' = kv (between (called (GET (''lock:'' @ lockKey)) r))"
  using assms
  by (auto simp add: releaseLock_def Let_def called_def lua_compare_and_delete_def
      split: if_splits option.splits redis_val.splits prod.splits)

lemma releaseLock_other_holder:
  assumes "lookup r now (''lock:'' @ lockKey) = Some (RawString v)"
    and "holder_of v \<noteq> tok" and "CHR '':'' \<notin> set tok"
  shows "fst (releaseLock between r now lockKey tok) = False
         \<and> kv (snd (releaseLock between r now lockKey tok)) = kv r"
proof -
  from assms(2,3) have "\<not> prefix (tok @ '':'') v"
    using holder_of_prefix by blast
  with assms(1) show ?thesis
    by (simp add: releaseLock_def Let_def called_def)
qed

text \<open>
  C5. \<open>releaseLock(key, token)\<close> deletes the lock entry only when the value stored
  at the lock key is the one it read, begins with \<open>token:\<close>, and is still stored when
  the compare-and-delete runs; it returns \<open>true\<close> exactly when it deleted the entry,
  and otherwise leaves the key space as it found it. When the stored value names
  another holder (the part before the first colon differs from the token, tokens being
  colon-free as \<open>acquireLock\<close> generates them), the entry stays and the result is
  \<open>false\<close>.
\<close>

theorem releaseLock_only_own_lock:
  assumes "releaseLock between r now lockKey tok = (released, r')"
  shows "(released \<longrightarrow>
            (\<exists>v. lookup r now (''lock:'' @ lockKey) = Some (RawString v)
               \<and> lookup (between (called (GET (''lock:'' @ lockKey)) r)) now (''lock:'' @ lockKey)
                   = Some (RawString v)
               \<and> prefix (tok @ '':'') v)
            \<and> kv r' = (kv (between (called (GET (''lock:'' @ lockKey)) r)))
                         (''lock:'' @ lockKey := None))
       \<and> (\<not> released \<longrightarrow>
            kv r' = kv r \<or> kv r' = kv (between (called (GET (''lock:'' @ lockKey)) r)))
       \<and> (\<forall>v. lookup r now (''lock:'' @ lockKey) = Some (RawString v)
               \<and> holder_of v \<noteq> tok \<and> CHR '':'' \<notin> set tok
             \<longrightarrow> \<not> released \<and> kv r' = kv r)"
proof (intro conjI impI allI)
  assume released
  with assms have "releaseLock between r now lockKey tok = (True, r')" by simp
  from releaseLock_true[OF this]
  show "\<exists>v. lookup r now (''lock:'' @ lockKey) = Some (RawString v)
            \<and> lookup (between (called (GET (''lock:'' @ lockKey)) r)) now (''lock:'' @ lockKey)
                = Some (RawString v)
            \<and> prefix (tok @ '':'') v"
    and "kv r' = (kv (between (called (GET (''lock:'' @ lockKey)) r)))
                         (''lock:'' @ lockKey := None)"
    by blast+
next
  assume "\<not> released"
  with assms have "releaseLock between r now lockKey tok = (False, r')" by simp
  from releaseLock_false[OF this]
  show "kv r' = kv r \<or> kv r' = kv (between (called (GET (''lock:'' @ lockKey)) r))" .
next
  fix v
  assume h: "lookup r now (''lock:'' @ lockKey) = Some (RawString v)
             \<and> holder_of v \<noteq> tok \<and> CHR '':'' \<notin> set tok"
  then have "fst (releaseLock between r now lockKey tok) = False
             \<and> kv (snd (releaseLock between r now lockKey tok)) = kv r"
    using releaseLock_other_holder by blast
  with assms show "\<not> released" and "kv r' = kv r" by simp_all
qed

text \<open>
  The holder that \<open>acquireLock\<close> granted ''7-0.5'' releases its own lock (the entry
  goes, the result is \<open>true\<close>); the holder ''7-0.5'' whose lease expired and whose key
  now belongs to ''9-0.25'' releases nothing.
\<close>

theorem releaseLock_witness:
  "(case acquireLock (ex_redis :: unit redis_state) 100 ''7-0.5'' ''booking_AC1'' 30 None of
      (granted, r1) \<Rightarrow>
        granted = Some ''7-0.5''
        \<and> lookup r1 200 ''lock:booking_AC1'' = Some (RawString ''7-0.5:100'')
        \<and> fst (releaseLock id r1 200 ''booking_AC1'' ''7-0.5'')
        \<and> kv (snd (releaseLock id r1 200 ''booking_AC1'' ''7-0.5'')) ''lock:booking_AC1'' = None)
   \<and> \<not> fst (releaseLock id (ex_redis_held :: unit redis_state) 200 ''booking_AC1'' ''7-0.5'')
   \<and> kv (snd (releaseLock id (ex_redis_held :: unit redis_state) 200 ''booking_AC1'' ''7-0.5''))
       = kv (ex_redis_held :: unit redis_state)"
proof -
  have d: "dec 100 = ''100''" by code_simp
  have a: "acquireLock (ex_redis :: unit redis_state) 100 ''7-0.5'' ''booking_AC1'' 30 None
           = (Some ''7-0.5'',
              \<lparr>isConnected = True, failing = False,
               kv = [''lock:booking_AC1'' \<mapsto> (RawString ''7-0.5:100'', 30100)],
               calls = [SET_NX ''lock:booking_AC1'']\<rparr>)"
    by (simp add: acquireLock_def ex_redis_def lookup_def called_def d Let_def)
  have h: "lookup (ex_redis_held :: unit redis_state) 200 (''lock:'' @ ''booking_AC1'')
             = Some (RawString ''9-0.25:100'')
           \<and> holder_of ''9-0.25:100'' \<noteq> ''7-0.5'' \<and> CHR '':'' \<notin> set ''7-0.5''"
    by (simp add: ex_redis_held_def lookup_def holder_of_def)
  obtain b r' where rel:
    "releaseLock id (ex_redis_held :: unit redis_state) 200 ''booking_AC1'' ''7-0.5'' = (b, r')"
    by (cases "releaseLock id (ex_redis_held :: unit redis_state) 200 ''booking_AC1'' ''7-0.5''")
  from releaseLock_only_own_lock[OF rel] h have "\<not> b \<and> kv r' = kv (ex_redis_held :: unit redis_state)"
    by blast
  moreover
  have "fst (releaseLock id \<lparr>isConnected = True, failing = False,
               kv = [''lock:booking_AC1'' \<mapsto> (RawString ''7-0.5:100'', 30100)],
               calls = [SET_NX ''lock:booking_AC1'']\<rparr> 200 ''booking_AC1'' ''7-0.5'')
        \<and> kv (snd (releaseLock id \<lparr>isConnected = True, failing = False,
               kv = [''lock:booking_AC1'' \<mapsto> (RawString ''7-0.5:100'', 30100)],
               calls = [SET_NX ''lock:booking_AC1'']\<rparr> 200 ''booking_AC1'' ''7-0.5''))
            ''lock:booking_AC1'' = None"
    by (simp add: releaseLock_def lookup_def called_def lua_compare_and_delete_def Let_def)
  ultimately show ?thesis
    using a rel by (simp add: lookup_def)
qed

section \<open>The lock-protected status update: the lock\<close>

lemma lock_refused:
  assumes "acquireLock r now fresh (''booking_'' @ refId) 30 None = (None, r1)"
  shows "updateBookingStatus_locked env db r now fresh refId st location flightId description
         = (Inl LockUnavailable, db, r1)"
  using assms by (simp add: updateBookingStatus_locked_def)

lemma acquireLock_refused_state:
  assumes "acquireLock r now fresh lockKey ttl identifier = (None, r1)"
  shows "kv r1 = kv r \<and> isConnected r1 = isConnected r \<and> failing r1 = failing r
         \<and> calls r1 = (if isConnected r then calls r @ [SET_NX (''lock:'' @ lockKey)] else calls r)"
  using assms
  by (auto simp add: acquireLock_def Let_def called_def split: if_splits option.splits)

lemma acquireLock_held:
  assumes "isConnected r" and "lookup r now (''lock:'' @ lockKey) = Some holder"
  shows "acquireLock r now fresh lockKey ttl identifier
         = (None, r\<lparr>calls := calls r @ [SET_NX (''lock:'' @ lockKey)]\<rparr>)"
  using assms by (simp add: acquireLock_def Let_def called_def)

text \<open>
  C4. When \<open>acquireLock\<close> grants no token, \<open>updateBookingStatus\<close> fails with the
  lock error, the store is the one it was given, and the cache client has done nothing
  but the one \<open>SET NX\<close> of the lock key (no call at all when disconnected): no entry
  of the key space changed, no \<open>GET\<close>, \<open>DEL\<close> or \<open>SETEX\<close> was issued, no
  second attempt made. A lock key that is held is such a case.
\<close>

theorem lock_unavailable_fails_immediately:
  assumes "acquireLock r now fresh (''booking_'' @ refId) 30 None = (None, r1)"
  shows "updateBookingStatus_locked env db r now fresh refId st location flightId description
           = (Inl LockUnavailable, db, r1)
         \<and> kv r1 = kv r
         \<and> calls r1 = (if isConnected r
                        then calls r @ [SET_NX (''lock:'' @ (''booking_'' @ refId))]
                        else calls r)
         \<and> (isConnected r \<and> lookup r now (''lock:'' @ (''booking_'' @ refId)) \<noteq> None
              \<longrightarrow> r1 = r\<lparr>calls := calls r @ [SET_NX (''lock:'' @ (''booking_'' @ refId))]\<rparr>)"
proof (intro conjI impI)
  show "updateBookingStatus_locked env db r now fresh refId st location flightId description
           = (Inl LockUnavailable, db, r1)"
    using assms by (rule lock_refused)
  show "kv r1 = kv r"
    using acquireLock_refused_state[OF assms] by simp
  show "calls r1 = (if isConnected r
                        then calls r @ [SET_NX (''lock:'' @ (''booking_'' @ refId))]
                        else calls r)"
    using acquireLock_refused_state[OF assms] by simp
next
  assume "isConnected r \<and> lookup r now (''lock:'' @ (''booking_'' @ refId)) \<noteq> None"
  then obtain holder where "isConnected r"
    and "lookup r now (''lock:'' @ (''booking_'' @ refId)) = Some holder"
    by auto
  from acquireLock_held[OF this, of fresh 30 None] assms
  show "r1 = r\<lparr>calls := calls r @ [SET_NX (''lock:'' @ (''booking_'' @ refId))]\<rparr>"
    by simp
qed

theorem lock_unavailable_witness:
  "acquireLock (ex_redis_held :: unit redis_state) 200 ''8-0.1'' (''booking_'' @ ''AC1'') 30 None
     = (None, ex_redis_held\<lparr>calls := [SET_NX ''lock:booking_AC1'']\<rparr>)
   \<and> updateBookingStatus_locked id (ex_store BOOKED 1) (ex_redis_held :: unit redis_state)
         200 ''8-0.1'' ''AC1'' DEPARTED None None None
     = (Inl LockUnavailable, ex_store BOOKED 1, ex_redis_held\<lparr>calls := [SET_NX ''lock:booking_AC1'']\<rparr>)
   \<and> kv (ex_redis_held\<lparr>calls := [SET_NX ''lock:booking_AC1'']\<rparr> :: unit redis_state)
     = kv (ex_redis_held :: unit redis_state)"
proof -
  have a: "acquireLock (ex_redis_held :: unit redis_state) 200 ''8-0.1'' (''booking_'' @ ''AC1'') 30 None
           = (None, ex_redis_held\<lparr>calls := [SET_NX ''lock:booking_AC1'']\<rparr>)"
    by (simp add: acquireLock_def ex_redis_held_def lookup_def called_def Let_def)
  from lock_unavailable_fails_immediately[OF a, of id "ex_store BOOKED 1" DEPARTED None None None] a
  show ?thesis by simp
qed

text \<open>
  C10. While the cache client is disconnected or its calls reject, \<open>acquireLock\<close>
  returns \<open>null\<close>, so every \<open>updateBookingStatus\<close> of the lock-protected service
  fails with the lock error and leaves the store and the client's condition as they
  were; \<open>getBookingHistory\<close> meanwhile answers from the store.
\<close>

theorem cache_unavailable_blocks_updates:
  assumes "\<not> isConnected r \<or> failing r"
  shows "fst (acquireLock r now fresh lockKey ttl given) = None
       \<and> fst (updateBookingStatus_locked env db r now fresh refId st location flightId description)
           = Inl LockUnavailable
       \<and> fst (snd (updateBookingStatus_locked env db r now fresh refId st location flightId
                     description)) = db
       \<and> isConnected (snd (snd (updateBookingStatus_locked env db r now fresh refId st location
                     flightId description))) = isConnected r
       \<and> failing (snd (snd (updateBookingStatus_locked env db r now fresh refId st location
                     flightId description))) = failing r
       \<and> fst (getBookingHistory_locked db r now refId)
           = (case select_booking refId db of
                [] \<Rightarrow> None
              | booking # rest \<Rightarrow> Some (hydrate_locked db booking))"
proof -
  have n: "fst (acquireLock r now fresh k t i) = None" for k t i
    using assms by (auto simp add: acquireLock_def Let_def called_def)
  obtain r1 where a: "acquireLock r now fresh (''booking_'' @ refId) 30 None = (None, r1)"
    using n[of "''booking_'' @ refId" 30 None]
    by (cases "acquireLock r now fresh (''booking_'' @ refId) 30 None") auto
  have "fst (acquireLock r now fresh lockKey ttl given) = None"
    by (rule n)
  moreover note lock_refused[OF a, of env db st location flightId description]
    acquireLock_refused_state[OF a]
  moreover have "fst (getBookingHistory_locked db r now refId)
        = (case select_booking refId db of
             [] \<Rightarrow> None
           | booking # rest \<Rightarrow> Some (hydrate_locked db booking))"
    using assms
    by (auto simp add: getBookingHistory_locked_def getCachedBooking_def redis_get_def
        cacheBooking_def redis_set_def Let_def split: list.splits)
  ultimately show ?thesis by simp
qed

theorem cache_unavailable_witness:
  "fst (acquireLock (ex_redis\<lparr>isConnected := False\<rparr> :: history_locked redis_state)
          5000 ''8-0.1'' ''booking_AC1'' 30 None) = None
   \<and> updateBookingStatus_locked id (ex_store BOOKED 1)
        (ex_redis\<lparr>failing := True\<rparr> :: history_locked redis_state)
        5000 ''8-0.1'' ''AC1'' DEPARTED None None None
     = (Inl LockUnavailable, ex_store BOOKED 1,
        ex_redis\<lparr>failing := True, calls := [SET_NX ''lock:booking_AC1'']\<rparr>)
   \<and> map_option h_status
        (fst (getBookingHistory_locked (ex_store BOOKED 1)
               (ex_redis\<lparr>failing := True\<rparr>) 5000 ''AC1'')) = Some BOOKED"
proof -
  have d: "\<not> isConnected (ex_redis\<lparr>isConnected := False\<rparr> :: history_locked redis_state)
           \<or> failing (ex_redis\<lparr>isConnected := False\<rparr> :: history_locked redis_state)"
    by (simp add: ex_redis_def)
  have f: "\<not> isConnected (ex_redis\<lparr>failing := True\<rparr> :: history_locked redis_state)
           \<or> failing (ex_redis\<lparr>failing := True\<rparr> :: history_locked redis_state)"
    by (simp add: ex_redis_def)
  have u: "updateBookingStatus_locked id (ex_store BOOKED 1)
        (ex_redis\<lparr>failing := True\<rparr> :: history_locked redis_state)
        5000 ''8-0.1'' ''AC1'' DEPARTED None None None
     = (Inl LockUnavailable, ex_store BOOKED 1,
        ex_redis\<lparr>failing := True, calls := [SET_NX ''lock:booking_AC1'']\<rparr>)"
    by (simp add: updateBookingStatus_locked_def acquireLock_def ex_redis_def called_def Let_def)
  have s: "select_booking ''AC1'' (ex_store BOOKED 1) = [ex_booking BOOKED 1]"
    by (simp add: select_booking_def ex_store_def ex_booking_def)
  from cache_unavailable_blocks_updates[OF d, where now = 5000 and fresh = "''8-0.1''"
        and lockKey = "''booking_AC1''" and ttl = 30 and given = None]
    cache_unavailable_blocks_updates[OF f, where db = "ex_store BOOKED 1" and refId = "''AC1''"
        and now = 5000]
    u s
  show ?thesis by (simp add: ex_redis_def hydrate_locked_def ex_booking_def)
qed

section \<open>The lock-protected status update: the transaction\<close>

lemma tx_failure:
  assumes "updateBookingStatus_tx env now refId st location flightId description (beginTransaction db) r = (Inl e, c, r1)"
  shows "(committed c = db \<or> committed c = env db) \<and> r1 = r"
  using assms
  by (auto simp add: updateBookingStatus_tx_def beginTransaction_def others_def Let_def
      split: list.splits if_splits sum.splits prod.splits)

lemma tx_success:
  assumes "updateBookingStatus_tx env now refId st location flightId description (beginTransaction db) r = (Inr a, c, r1)"
  shows "\<exists>booking rest. select_booking refId db = booking # rest
       \<and> \<not> (st = CANCELLED \<and> b_status booking = ARRIVED)
       \<and> filter (\<lambda>b. b_ref_id b = refId \<and> b_version b = b_version booking) (bookings (env db)) \<noteq> []
       \<and> working c = (env db)\<lparr>bookings := bumped st refId (b_version booking) (bookings (env db)),
             timeline_events := timeline_events (env db) @ [new_event (env db) (b_id booking) st location flightId (description_or_default description st) (now div 1000)],
             next_event_id := Suc (next_event_id (env db))\<rparr>
       \<and> r1 = snd (invalidateBookingCache r refId)
       \<and> a = Acknowledgement \<lparr>ack_success = True, ack_refId = refId, ack_status = st\<rparr>"
  using assms
  by (auto simp add: updateBookingStatus_tx_def beginTransaction_def others_def Let_def bumped_def new_event_def
       update_status_versioned_def insert_timeline_event_def
      split: list.splits if_splits sum.splits prod.splits)

lemma tx_zero_rows:
  assumes "select_booking refId db = booking # rest"
    and "\<not> (st = CANCELLED \<and> b_status booking = ARRIVED)"
    and "filter (\<lambda>b. b_ref_id b = refId \<and> b_version b = b_version booking) (bookings (env db)) = []"
  shows "updateBookingStatus_tx env now refId st location flightId description (beginTransaction db) r
         = (Inl ConcurrentUpdate, \<lparr>committed = env db, working = env db\<rparr>, r)"
proof -
  have "map (\<lambda>b. if b_ref_id b = refId \<and> b_version b = b_version booking
                    then b\<lparr>b_status := st, b_version := b_version b + 1\<rparr>
                    else b) (bookings (env db)) = bookings (env db)"
    using assms(3) by (intro map_idI) (auto simp: filter_empty_conv)
  with assms show ?thesis
    by (simp add: updateBookingStatus_tx_def beginTransaction_def others_def Let_def update_status_versioned_def)
qed

lemma acquire_granted:
  assumes "isConnected r" "\<not> failing r" "lookup r now (''lock:'' @ lockKey) = None"
  shows "acquireLock r now fresh lockKey ttl None
         = (Some fresh, called (SET_NX (''lock:'' @ lockKey))
                (r\<lparr>kv := (kv r)(''lock:'' @ lockKey \<mapsto> (RawString (fresh @ '':'' @ dec now), now + ttl * 1000))\<rparr>))"
  using assms by (simp add: acquireLock_def Let_def)

lemma locked_granted:
  assumes "acquireLock r now fresh (''booking_'' @ refId) 30 None = (Some lid, r1)" and "lid \<noteq> []"
  shows "fst (updateBookingStatus_locked env db r now fresh refId st location flightId description)
           = fst (transaction (updateBookingStatus_tx env now refId st location flightId description) db r1)
       \<and> fst (snd (updateBookingStatus_locked env db r now fresh refId st location flightId description))
           = fst (snd (transaction (updateBookingStatus_tx env now refId st location flightId description) db r1))"
  using assms by (simp add: updateBookingStatus_locked_def Let_def split: prod.splits)

lemma locked_empty_token:
  assumes "acquireLock r now fresh (''booking_'' @ refId) 30 None = (Some [], r1)"
  shows "updateBookingStatus_locked env db r now fresh refId st location flightId description
         = (Inl LockUnavailable, db, r1)"
  using assms by (simp add: updateBookingStatus_locked_def)

lemma locked_cases:
  assumes "updateBookingStatus_locked env db r now fresh refId st location flightId description = (res, db', r')"
  obtains (refused) "res = Inl LockUnavailable" "db' = db"
  | (ran) r1 where
      "fst (transaction (updateBookingStatus_tx env now refId st location flightId description) db r1) = res"
      "fst (snd (transaction (updateBookingStatus_tx env now refId st location flightId description) db r1)) = db'"
proof (cases "acquireLock r now fresh (''booking_'' @ refId) 30 None")
  case (Pair lockId r1)
  show ?thesis
  proof (cases lockId)
    case None
    with Pair lock_refused[of r now fresh refId r1 env db st location flightId description] assms
    show ?thesis by (intro refused) simp_all
  next
    case (Some lid)
    show ?thesis
    proof (cases "lid = []")
      case True
      with Pair Some locked_empty_token[of r now fresh refId r1 env db st location flightId description] assms
      show ?thesis by (intro refused) simp_all
    next
      case False
      with Pair Some locked_granted[of r now fresh refId lid r1 env db st location flightId description] assms
      show ?thesis by (intro ran[of r1]) simp_all
    qed
  qed
qed

lemma transaction_failure:
  assumes "fst (transaction (updateBookingStatus_tx env now refId st location flightId description) db r1) = Inl e"
  shows "fst (snd (transaction (updateBookingStatus_tx env now refId st location flightId description) db r1)) = db
       \<or> fst (snd (transaction (updateBookingStatus_tx env now refId st location flightId description) db r1)) = env db"
proof (cases "updateBookingStatus_tx env now refId st location flightId description (beginTransaction db) r1")
  case (fields res c r2)
  with assms have "res = Inl e" by (simp add: transaction_def split: sum.splits)
  with fields tx_failure[of env now refId st location flightId description db r1 e c r2]
  show ?thesis by (simp add: transaction_def rollback_def)
qed

lemma transaction_success:
  assumes "fst (transaction (updateBookingStatus_tx env now refId st location flightId description) db r1) = Inr a"
  shows "\<exists>booking rest. select_booking refId db = booking # rest
       \<and> \<not> (st = CANCELLED \<and> b_status booking = ARRIVED)
       \<and> filter (\<lambda>b. b_ref_id b = refId \<and> b_version b = b_version booking) (bookings (env db)) \<noteq> []
       \<and> fst (snd (transaction (updateBookingStatus_tx env now refId st location flightId description) db r1))
          = (env db)\<lparr>bookings := bumped st refId (b_version booking) (bookings (env db)),
             timeline_events := timeline_events (env db) @ [new_event (env db) (b_id booking) st location flightId (description_or_default description st) (now div 1000)],
             next_event_id := Suc (next_event_id (env db))\<rparr>
       \<and> snd (snd (transaction (updateBookingStatus_tx env now refId st location flightId description) db r1))
          = snd (invalidateBookingCache r1 refId)
       \<and> a = Acknowledgement \<lparr>ack_success = True, ack_refId = refId, ack_status = st\<rparr>"
proof (cases "updateBookingStatus_tx env now refId st location flightId description (beginTransaction db) r1")
  case (fields res c r2)
  with assms have "res = Inr a" by (simp add: transaction_def split: sum.splits)
  with fields tx_success[of env now refId st location flightId description db r1 a c r2]
  show ?thesis by (simp add: transaction_def commit_def)
qed

lemma bumped_ids: "map b_id (bumped st refId v rows) = map b_id rows"
  by (simp add: bumped_def)

lemma tx_update_then:
  assumes "select_booking refId db = booking # rest"
    and "\<not> (st = CANCELLED \<and> b_status booking = ARRIVED)"
    and "filter (\<lambda>b. b_ref_id b = refId \<and> b_version b = b_version booking) (bookings (env db)) \<noteq> []"
    and "b_version booking < 2147483647"
  shows "updateBookingStatus_tx env now refId st location flightId description (beginTransaction db) r
         = (case insert_timeline_event (b_id booking) st location flightId
                              (description_or_default description st) (now div 1000)
                  ((env db)\<lparr>bookings := bumped st refId (b_version booking) (bookings (env db))\<rparr>) of
              Inl e \<Rightarrow> (Inl (SqlError e),
                         \<lparr>committed = env db,
                          working = (env db)\<lparr>bookings := bumped st refId (b_version booking) (bookings (env db))\<rparr>\<rparr>, r)
            | Inr w3 \<Rightarrow> (Inr (Acknowledgement \<lparr>ack_success = True, ack_refId = refId, ack_status = st\<rparr>),
                         \<lparr>committed = env db, working = w3\<rparr>, snd (invalidateBookingCache r refId)))"
  using assms
  by (simp add: updateBookingStatus_tx_def beginTransaction_def others_def Let_def
      update_status_versioned_def bumped_def split: sum.splits prod.splits)

lemma select_booking_mem:
  assumes "select_booking refId db = booking # rest"
  shows "booking \<in> set (bookings db) \<and> b_ref_id booking = refId"
proof -
  have "booking \<in> set (select_booking refId db)" using assms by simp
  then show ?thesis by (simp add: select_booking_def)
qed

lemma locked_success:
  assumes "isConnected r" "\<not> failing r" "fresh \<noteq> []"
    and "lookup r now (''lock:'' @ (''booking_'' @ refId)) = None"
    and sel: "select_booking refId db = booking # rest"
    and "\<not> (st = CANCELLED \<and> b_status booking = ARRIVED)"
    and "b_version booking < 2147483647"
    and "\<not> too_long 10 location" "\<not> too_long 50 flightId"
  shows "fst (updateBookingStatus_locked id db r now fresh refId st location flightId description)
           = Inr (Acknowledgement \<lparr>ack_success = True, ack_refId = refId, ack_status = st\<rparr>)
       \<and> fst (snd (updateBookingStatus_locked id db r now fresh refId st location flightId description))
           = db\<lparr>bookings := bumped st refId (b_version booking) (bookings db),
                timeline_events := timeline_events db @
                  [new_event db (b_id booking) st location flightId
                     (description_or_default description st) (now div 1000)],
                next_event_id := Suc (next_event_id db)\<rparr>"
proof -
  note m = select_booking_mem[OF sel]
  then have ne: "filter (\<lambda>b. b_ref_id b = refId \<and> b_version b = b_version booking) (bookings (id db)) \<noteq> []"
    by (auto simp: filter_empty_conv)
  from m have fk: "b_id booking \<in> set (map b_id (bookings db))" by auto
  have a: "acquireLock r now fresh (''booking_'' @ refId) 30 None
         = (Some fresh, called (SET_NX (''lock:'' @ (''booking_'' @ refId)))
                (r\<lparr>kv := (kv r)(''lock:'' @ (''booking_'' @ refId) \<mapsto> (RawString (fresh @ '':'' @ dec now), now + 30 * 1000))\<rparr>))"
    using assms(1,2,4) by (rule acquire_granted)
  have ins: "insert_timeline_event (b_id booking) st location flightId
                              (description_or_default description st) (now div 1000)
                  (db\<lparr>bookings := bumped st refId (b_version booking) (bookings db)\<rparr>)
        = Inr (db\<lparr>bookings := bumped st refId (b_version booking) (bookings db),
                timeline_events := timeline_events db @
                  [new_event db (b_id booking) st location flightId
                     (description_or_default description st) (now div 1000)],
                next_event_id := Suc (next_event_id db)\<rparr>)"
    using assms(8,9) fk by (simp add: insert_timeline_event_def bumped_ids new_event_def)
  have tx: "updateBookingStatus_tx id now refId st location flightId description (beginTransaction db) r1
        = (Inr (Acknowledgement \<lparr>ack_success = True, ack_refId = refId, ack_status = st\<rparr>),
           \<lparr>committed = db, working = db\<lparr>bookings := bumped st refId (b_version booking) (bookings db),
                timeline_events := timeline_events db @
                  [new_event db (b_id booking) st location flightId
                     (description_or_default description st) (now div 1000)],
                next_event_id := Suc (next_event_id db)\<rparr>\<rparr>, snd (invalidateBookingCache r1 refId))"
    for r1 :: "'a redis_state"
    using tx_update_then[where env = id, OF sel assms(6) ne assms(7), of now location flightId description r1] ins
    by simp
  from locked_granted[OF a assms(3), of id db st location flightId description]
  show ?thesis by (simp add: transaction_def tx commit_def)
qed

lemma locked_insert_refused:
  assumes "isConnected r" "\<not> failing r" "fresh \<noteq> []"
    and "lookup r now (''lock:'' @ (''booking_'' @ refId)) = None"
    and sel: "select_booking refId db = booking # rest"
    and "\<not> (st = CANCELLED \<and> b_status booking = ARRIVED)"
    and "b_version booking < 2147483647"
    and "too_long 10 location \<or> too_long 50 flightId"
  shows "fst (updateBookingStatus_locked id db r now fresh refId st location flightId description)
           = Inl (SqlError ER_DATA_TOO_LONG)
       \<and> fst (snd (updateBookingStatus_locked id db r now fresh refId st location flightId description))
           = db"
proof -
  note m = select_booking_mem[OF sel]
  then have ne: "filter (\<lambda>b. b_ref_id b = refId \<and> b_version b = b_version booking) (bookings (id db)) \<noteq> []"
    by (auto simp: filter_empty_conv)
  have a: "acquireLock r now fresh (''booking_'' @ refId) 30 None
         = (Some fresh, called (SET_NX (''lock:'' @ (''booking_'' @ refId)))
                (r\<lparr>kv := (kv r)(''lock:'' @ (''booking_'' @ refId) \<mapsto> (RawString (fresh @ '':'' @ dec now), now + 30 * 1000))\<rparr>))"
    using assms(1,2,4) by (rule acquire_granted)
  have ins: "insert_timeline_event (b_id booking) st location flightId
                              (description_or_default description st) (now div 1000)
                  (db\<lparr>bookings := bumped st refId (b_version booking) (bookings db)\<rparr>)
        = Inl ER_DATA_TOO_LONG"
    using assms(8) by (simp add: insert_timeline_event_def)
  have tx: "updateBookingStatus_tx id now refId st location flightId description (beginTransaction db) r1
        = (Inl (SqlError ER_DATA_TOO_LONG),
           \<lparr>committed = db, working = db\<lparr>bookings := bumped st refId (b_version booking) (bookings db)\<rparr>\<rparr>, r1)"
    for r1 :: "'a redis_state"
    using tx_update_then[where env = id, OF sel assms(6) ne assms(7), of now location flightId description r1] ins
    by simp
  from locked_granted[OF a assms(3), of id db st location flightId description]
  show ?thesis by (simp add: transaction_def tx rollback_def)
qed

lemma ex_select: "select_booking ''AC1'' (ex_store st v) = [ex_booking st v]"
  by (simp add: select_booking_def ex_store_def ex_booking_def)

lemma ex_redis_connected: "isConnected (ex_redis :: 'a redis_state)"
  by (simp add: ex_redis_def)

lemma ex_redis_answers: "\<not> failing (ex_redis :: 'a redis_state)"
  by (simp add: ex_redis_def)

lemma ex_redis_no_key: "lookup (ex_redis :: 'a redis_state) now k = None"
  by (simp add: ex_redis_def lookup_def)

lemma other_writer_ex: "other_writer (ex_store BOOKED 1) = ex_store ARRIVED 2"
  by (simp add: other_writer_def update_status_versioned_def ex_store_def ex_booking_def)

text \<open>
  C3. In the lock-protected \<open>updateBookingStatus\<close> the status write is guarded by the
  version read at the start of the transaction. A call that fails leaves the store as it
  was, or as the other sessions left it: none of its own writes remain. A call that
  succeeds has written both the status with the version raised by one, on the rows that
  still had the version read, and the timeline event. When no row has that version any
  more, the call fails with the concurrent-update error.
\<close>

theorem status_update_atomic:
  assumes "updateBookingStatus_locked env db r now fresh refId st location flightId description = (res, db', r')"
  shows "(\<forall>e. res = Inl e \<longrightarrow> db' = db \<or> db' = env db)
    \<and> (\<forall>a. res = Inr a \<longrightarrow> (\<exists>booking rest. select_booking refId db = booking # rest
       \<and> filter (\<lambda>b. b_ref_id b = refId \<and> b_version b = b_version booking) (bookings (env db)) \<noteq> []
       \<and> db' = (env db)\<lparr>bookings := bumped st refId (b_version booking) (bookings (env db)),
             timeline_events := timeline_events (env db) @ [new_event (env db) (b_id booking) st location flightId (description_or_default description st) (now div 1000)],
             next_event_id := Suc (next_event_id (env db))\<rparr>))
    \<and> (\<forall>booking rest. isConnected r \<and> \<not> failing r \<and> fresh \<noteq> [] \<and> lookup r now (''lock:'' @ (''booking_'' @ refId)) = None
         \<and> select_booking refId db = booking # rest \<and> \<not> (st = CANCELLED \<and> b_status booking = ARRIVED)
         \<and> filter (\<lambda>b. b_ref_id b = refId \<and> b_version b = b_version booking) (bookings (env db)) = []
        \<longrightarrow> res = Inl ConcurrentUpdate \<and> db' = env db)"
proof (intro conjI allI impI)
  fix e assume e: "res = Inl e"
  from assms show "db' = db \<or> db' = env db"
  proof (cases rule: locked_cases)
    case refused
    then show ?thesis by simp
  next
    case (ran r1)
    with e transaction_failure[of env now refId st location flightId description db r1 e]
    show ?thesis by simp
  qed
next
  fix a assume a: "res = Inr a"
  from assms show "\<exists>booking rest. select_booking refId db = booking # rest
       \<and> filter (\<lambda>b. b_ref_id b = refId \<and> b_version b = b_version booking) (bookings (env db)) \<noteq> []
       \<and> db' = (env db)\<lparr>bookings := bumped st refId (b_version booking) (bookings (env db)),
             timeline_events := timeline_events (env db) @ [new_event (env db) (b_id booking) st location flightId (description_or_default description st) (now div 1000)],
             next_event_id := Suc (next_event_id (env db))\<rparr>"
  proof (cases rule: locked_cases)
    case refused
    with a show ?thesis by simp
  next
    case (ran r1)
    with a transaction_success[of env now refId st location flightId description db r1 a]
    show ?thesis by auto
  qed
next
  fix booking rest
  assume h: "isConnected r \<and> \<not> failing r \<and> fresh \<noteq> [] \<and> lookup r now (''lock:'' @ (''booking_'' @ refId)) = None
         \<and> select_booking refId db = booking # rest \<and> \<not> (st = CANCELLED \<and> b_status booking = ARRIVED)
         \<and> filter (\<lambda>b. b_ref_id b = refId \<and> b_version b = b_version booking) (bookings (env db)) = []"
  then have a: "acquireLock r now fresh (''booking_'' @ refId) 30 None
         = (Some fresh, called (SET_NX (''lock:'' @ (''booking_'' @ refId)))
                (r\<lparr>kv := (kv r)(''lock:'' @ (''booking_'' @ refId) \<mapsto> (RawString (fresh @ '':'' @ dec now), now + 30 * 1000))\<rparr>))"
    using acquire_granted by blast
  from h have z: "updateBookingStatus_tx env now refId st location flightId description (beginTransaction db) r1
         = (Inl ConcurrentUpdate, \<lparr>committed = env db, working = env db\<rparr>, r1)" for r1 :: "'a redis_state"
    using tx_zero_rows by blast
  from h have "fresh \<noteq> []" by simp
  from locked_granted[OF a this, of env db st location flightId description] assms
  show "res = Inl ConcurrentUpdate" and "db' = env db"
    by (simp_all add: transaction_def z rollback_def)
qed


text \<open>
  Another session commits first: concurrent-update error, only the other session's
  write is in the store. The location does not fit its column: the insert fails after
  the status write, and the store is unchanged. Otherwise both writes are there.
\<close>

theorem status_update_atomic_witness:
 "fst (updateBookingStatus_locked other_writer (ex_store BOOKED 1) (ex_redis :: unit redis_state)
         5000 ''8-0.1'' ''AC1'' DEPARTED None None None) = Inl ConcurrentUpdate
  \<and> fst (snd (updateBookingStatus_locked other_writer (ex_store BOOKED 1) (ex_redis :: unit redis_state)
         5000 ''8-0.1'' ''AC1'' DEPARTED None None None)) = ex_store ARRIVED 2
  \<and> fst (updateBookingStatus_locked id (ex_store BOOKED 1) (ex_redis :: unit redis_state)
         5000 ''8-0.1'' ''AC1'' DEPARTED (Some ''Indira Gandhi International'') None None)
      = Inl (SqlError ER_DATA_TOO_LONG)
  \<and> fst (snd (updateBookingStatus_locked id (ex_store BOOKED 1) (ex_redis :: unit redis_state)
         5000 ''8-0.1'' ''AC1'' DEPARTED (Some ''Indira Gandhi International'') None None))
      = ex_store BOOKED 1
  \<and> fst (updateBookingStatus_locked id (ex_store BOOKED 1) (ex_redis :: unit redis_state)
         5000 ''8-0.1'' ''AC1'' DEPARTED (Some ''DEL'') None None)
      = Inr (Acknowledgement \<lparr>ack_success = True, ack_refId = ''AC1'', ack_status = DEPARTED\<rparr>)
  \<and> bookings (fst (snd (updateBookingStatus_locked id (ex_store BOOKED 1) (ex_redis :: unit redis_state)
         5000 ''8-0.1'' ''AC1'' DEPARTED (Some ''DEL'') None None))) = [ex_booking DEPARTED 2]
  \<and> map te_event_type (timeline_events (fst (snd (updateBookingStatus_locked id (ex_store BOOKED 1)
         (ex_redis :: unit redis_state) 5000 ''8-0.1'' ''AC1'' DEPARTED (Some ''DEL'') None None))))
      = [BOOKED, DEPARTED]"
proof -
  let ?U1 = "updateBookingStatus_locked other_writer (ex_store BOOKED 1) (ex_redis :: unit redis_state)
         5000 ''8-0.1'' ''AC1'' DEPARTED None None None"
  let ?U2 = "updateBookingStatus_locked id (ex_store BOOKED 1) (ex_redis :: unit redis_state)
         5000 ''8-0.1'' ''AC1'' DEPARTED (Some ''Indira Gandhi International'') None None"
  let ?U3 = "updateBookingStatus_locked id (ex_store BOOKED 1) (ex_redis :: unit redis_state)
         5000 ''8-0.1'' ''AC1'' DEPARTED (Some ''DEL'') None None"
  have p: "x = (fst x, fst (snd x), snd (snd x))" for x :: "'x \<times> 'y \<times> 'z" by simp
  have f: "filter (\<lambda>b. b_ref_id b = ''AC1'' \<and> b_version b = b_version (ex_booking BOOKED 1))
               (bookings (other_writer (ex_store BOOKED 1))) = []"
    unfolding other_writer_ex by (simp add: ex_store_def ex_booking_def)
  have 1: "fst ?U1 = Inl ConcurrentUpdate \<and> fst (snd ?U1) = ex_store ARRIVED 2"
    using status_update_atomic[OF p[of ?U1]]
    by (simp add: other_writer_ex ex_redis_connected ex_redis_answers ex_redis_no_key ex_select
          f[unfolded other_writer_ex])
  have 2: "fst ?U2 = Inl (SqlError ER_DATA_TOO_LONG)"
    using locked_insert_refused[where fresh = "''8-0.1''" and st = DEPARTED and now = 5000
        and location = "Some ''Indira Gandhi International''" and flightId = None
        and description = None,
        OF ex_redis_connected[where ?'a = unit] ex_redis_answers _ ex_redis_no_key ex_select[of BOOKED 1]]
    by (simp add: ex_booking_def too_long_def)
  from status_update_atomic[OF p[of ?U2]] 2 have s2: "fst (snd ?U2) = ex_store BOOKED 1" by simp
  have 3: "fst ?U3 = Inr (Acknowledgement \<lparr>ack_success = True, ack_refId = ''AC1'', ack_status = DEPARTED\<rparr>)"
    using locked_success[where fresh = "''8-0.1''" and st = DEPARTED and now = 5000
        and location = "Some ''DEL''" and flightId = None and description = None,
        OF ex_redis_connected[where ?'a = unit] ex_redis_answers _ ex_redis_no_key ex_select[of BOOKED 1]]
    by (simp add: ex_booking_def too_long_def)
  from status_update_atomic[OF p[of ?U3]] 3 ex_select[of BOOKED 1]
  have s3: "bookings (fst (snd ?U3)) = [ex_booking DEPARTED 2]
     \<and> map te_event_type (timeline_events (fst (snd ?U3))) = [BOOKED, DEPARTED]"
    by (auto simp add: bumped_def new_event_def ex_store_def ex_booking_def)
  from 1 2 s2 3 s3 show ?thesis by simp
qed


section \<open>The status update without lock and version check\<close>

lemma update_status_ids: "map b_id (bookings (update_status st refId db)) = map b_id (bookings db)"
  by (simp add: update_status_def comp_def if_distrib cong: if_cong)

lemma update_status_other_tables:
  "timeline_events (update_status st refId db) = timeline_events db
   \<and> next_event_id (update_status st refId db) = next_event_id db
   \<and> booking_flights (update_status st refId db) = booking_flights db
   \<and> flights (update_status st refId db) = flights db"
  by (simp add: update_status_def)

lemma direct_tx_runs:
  assumes sel: "select_booking refId db = booking # rest"
    and "\<not> (st = CANCELLED \<and> b_status booking = DELIVERED)"
  shows "transaction (updateBookingStatus_direct_tx now refId st location description) db r
         = (if too_long 10 location then (Inl (SqlError ER_DATA_TOO_LONG), db, r)
            else (Inr (), direct_written db booking now refId st location description, r))"
proof -
  from select_booking_mem[OF sel]
  have fk: "b_id booking \<in> set (map b_id (bookings (update_status st refId db)))"
    unfolding update_status_ids by auto
  have ins: "insert_timeline_event (b_id booking) st location None
               (description_or_default description st) (now div 1000) (update_status st refId db)
             = (if too_long 10 location then Inl ER_DATA_TOO_LONG
                else Inr (direct_written db booking now refId st location description))"
    using fk
    by (simp add: insert_timeline_event_def direct_written_def new_event_def
        update_status_other_tables too_long_def[of 50])
  from assms show ?thesis
    by (simp add: transaction_def updateBookingStatus_direct_tx_def beginTransaction_def Let_def
        ins rollback_def commit_def)
qed

lemma direct_tx_refused:
  assumes "select_booking refId db = [] \<or> (\<exists>booking rest. select_booking refId db = booking # rest \<and> st = CANCELLED \<and> b_status booking = DELIVERED)"
  shows "transaction (updateBookingStatus_direct_tx now refId st location description) db r
         = (Inl (if select_booking refId db = [] then BookingNotFound else CannotCancelDelivered), db, r)"
  using assms
  by (auto simp add: transaction_def updateBookingStatus_direct_tx_def beginTransaction_def rollback_def)

lemma direct_cases:
  assumes "updateBookingStatus_direct db r now refId st location description = (res, db', r')"
  obtains (failed) e where "res = Inl e" "db' = db" "r' = r"
  | (written) booking rest where "select_booking refId db = booking # rest"
      "\<not> (st = CANCELLED \<and> b_status booking = DELIVERED)" "\<not> too_long 10 location"
      "db' = direct_written db booking now refId st location description"
      "res = Inr (Aggregate (fst (getBookingHistory_direct db' (snd (invalidateBookingCache r refId)) now refId True)))"
      "r' = snd (getBookingHistory_direct db' (snd (invalidateBookingCache r refId)) now refId True)"
proof (cases "select_booking refId db")
  case Nil
  with direct_tx_refused[of refId db st now location description r] assms
  show ?thesis by (intro failed[of BookingNotFound]) (simp_all add: updateBookingStatus_direct_def)
next
  case (Cons booking rest)
  show ?thesis
  proof (cases "st = CANCELLED \<and> b_status booking = DELIVERED")
    case True
    with Cons have "select_booking refId db = [] \<or> (\<exists>booking rest. select_booking refId db = booking # rest \<and> st = CANCELLED \<and> b_status booking = DELIVERED)"
      by simp
    from direct_tx_refused[OF this, of now location description r] Cons assms
    show ?thesis by (intro failed[of CannotCancelDelivered]) (simp_all add: updateBookingStatus_direct_def)
  next
    case False
    note tx = direct_tx_runs[OF Cons False, of now location description r]
    show ?thesis
    proof (cases "too_long 10 location")
      case True
      with tx assms show ?thesis
        by (intro failed[of "SqlError ER_DATA_TOO_LONG"]) (simp_all add: updateBookingStatus_direct_def)
    next
      case nl: False
      with tx assms have
        "db' = direct_written db booking now refId st location description
         \<and> res = Inr (Aggregate (fst (getBookingHistory_direct db' (snd (invalidateBookingCache r refId)) now refId True)))
         \<and> r' = snd (getBookingHistory_direct db' (snd (invalidateBookingCache r refId)) now refId True)"
        by (auto simp add: updateBookingStatus_direct_def Let_def split: prod.splits)
      with Cons False nl show ?thesis by (intro written[of booking rest]) simp_all
    qed
  qed
qed

lemma select_update_status:
  "select_booking ref (update_status st refId db)
   = map (\<lambda>b. if b_ref_id b = refId then b\<lparr>b_status := st\<rparr> else b) (select_booking ref db)"
  by (simp add: select_booking_def update_status_def filter_map comp_def) (rule arg_cong[where f = "map _"], rule filter_cong, auto)

lemma select_direct_written:
  "select_booking ref (direct_written db booking now refId st location description)
   = map (\<lambda>b. if b_ref_id b = refId then b\<lparr>b_status := st\<rparr> else b) (select_booking ref db)"
  using select_update_status[of ref st refId db]
  by (simp add: direct_written_def select_booking_def)



lemma direct_cancel_delivered:
  assumes "status_of db refId = Some DELIVERED"
  shows "updateBookingStatus_direct db r now refId CANCELLED location description
         = (Inl CannotCancelDelivered, db, r)"
proof -
  from assms obtain booking rest where "select_booking refId db = booking # rest" "b_status booking = DELIVERED"
    by (auto simp add: status_of_def split: list.splits)
  then have "select_booking refId db = [] \<or> (\<exists>booking rest. select_booking refId db = booking # rest \<and> CANCELLED = CANCELLED \<and> b_status booking = DELIVERED)"
    by simp
  from direct_tx_refused[OF this, of now location description r] \<open>select_booking refId db = booking # rest\<close>
  show ?thesis by (simp add: updateBookingStatus_direct_def)
qed


section \<open>The lock-protected status update: what a granted call leaves behind\<close>

lemma locked_success_full:
  assumes "isConnected r" "\<not> failing r" "fresh \<noteq> []"
    and free: "lookup r now (''lock:'' @ (''booking_'' @ refId)) = None"
    and sel: "select_booking refId db = booking # rest"
    and rule: "\<not> (st = CANCELLED \<and> b_status booking = ARRIVED)"
    and ver: "b_version booking < 2147483647"
    and fits: "\<not> too_long 10 location" "\<not> too_long 50 flightId"
  shows "updateBookingStatus_locked id db r now fresh refId st location flightId description
         = (Inr (Acknowledgement \<lparr>ack_success = True, ack_refId = refId, ack_status = st\<rparr>),
            db\<lparr>bookings := bumped st refId (b_version booking) (bookings db),
                timeline_events := timeline_events db @
                  [new_event db (b_id booking) st location flightId
                     (description_or_default description st) (now div 1000)],
                next_event_id := Suc (next_event_id db)\<rparr>,
            r\<lparr>kv := (kv r)(''booking:'' @ refId := None, ''lock:'' @ (''booking_'' @ refId) := None),
              calls := calls r @ [SET_NX (''lock:'' @ (''booking_'' @ refId)), DEL (''booking:'' @ refId),
                                  GET (''lock:'' @ (''booking_'' @ refId)), EVAL (''lock:'' @ (''booking_'' @ refId))]\<rparr>)"
proof -
  note m = select_booking_mem[OF sel]
  then have ne: "filter (\<lambda>b. b_ref_id b = refId \<and> b_version b = b_version booking) (bookings (id db)) \<noteq> []"
    by (auto simp: filter_empty_conv)
  from m have fk: "b_id booking \<in> set (map b_id (bookings db))" by auto
  have ins: "insert_timeline_event (b_id booking) st location flightId
                              (description_or_default description st) (now div 1000)
                  (db\<lparr>bookings := bumped st refId (b_version booking) (bookings db)\<rparr>)
        = Inr (db\<lparr>bookings := bumped st refId (b_version booking) (bookings db),
                timeline_events := timeline_events db @
                  [new_event db (b_id booking) st location flightId
                     (description_or_default description st) (now div 1000)],
                next_event_id := Suc (next_event_id db)\<rparr>)"
    using fits fk by (simp add: insert_timeline_event_def bumped_ids new_event_def)
  have tx: "updateBookingStatus_tx id now refId st location flightId description (beginTransaction db) r1
        = (Inr (Acknowledgement \<lparr>ack_success = True, ack_refId = refId, ack_status = st\<rparr>),
           \<lparr>committed = db, working = db\<lparr>bookings := bumped st refId (b_version booking) (bookings db),
                timeline_events := timeline_events db @
                  [new_event db (b_id booking) st location flightId
                     (description_or_default description st) (now div 1000)],
                next_event_id := Suc (next_event_id db)\<rparr>\<rparr>, snd (invalidateBookingCache r1 refId))"
    for r1 :: "'a redis_state"
    using tx_update_then[where env = id, OF sel rule ne ver, of now location flightId description r1] ins
    by simp
  have a: "acquireLock r now fresh (''booking_'' @ refId) 30 None
         = (Some fresh, called (SET_NX (''lock:'' @ (''booking_'' @ refId)))
                (r\<lparr>kv := (kv r)(''lock:'' @ (''booking_'' @ refId) \<mapsto> (RawString (fresh @ '':'' @ dec now), now + 30 * 1000))\<rparr>))"
    using assms(1,2) free by (rule acquire_granted)
  show ?thesis
    using assms(1,2,3) a
    by (simp add: updateBookingStatus_locked_def transaction_def tx commit_def invalidateBookingCache_def redis_del_def called_def
        releaseLock_def lookup_def lua_compare_and_delete_def Let_def fun_upd_twist)
qed


section \<open>The version column\<close>

lemma select_bumped:
  "filter (\<lambda>b. b_ref_id b = ref) (bumped st refId v rows)
   = bumped st refId v (filter (\<lambda>b. b_ref_id b = ref) rows)"
  by (induction rows) (simp_all add: bumped_def)











lemma direct_success:
  assumes sel: "select_booking refId db = booking # rest"
    and rule: "\<not> (st = CANCELLED \<and> b_status booking = DELIVERED)"
    and fits: "\<not> too_long 10 location"
  shows "updateBookingStatus_direct db r now refId st location description
         = (Inr (Aggregate (fst (getBookingHistory_direct
                    (direct_written db booking now refId st location description)
                    (snd (invalidateBookingCache r refId)) now refId True))),
            direct_written db booking now refId st location description,
            snd (getBookingHistory_direct
                    (direct_written db booking now refId st location description)
                    (snd (invalidateBookingCache r refId)) now refId True))"
  using direct_tx_runs[OF sel rule, of now location description r] fits
  by (simp add: updateBookingStatus_direct_def Let_def split: prod.splits)






section \<open>Cancelling a delivered booking; what a status update returns\<close>

lemma ex_status: "status_of (ex_store st v) ''AC1'' = Some st"
  by (simp add: status_of_def ex_select) (simp add: ex_booking_def)

text \<open>
  C2. The lock-protected service refuses a cancellation only when the booking's status
  is ARRIVED. Booking AC1 is DELIVERED, version 4, and nobody holds its lock:
  \<open>updateBookingStatus(''AC1'', CANCELLED)\<close> succeeds, the stored status becomes
  CANCELLED and the version 5.
\<close>

theorem cancel_delivered_succeeds_locked:
  "status_of (ex_store DELIVERED 4) ''AC1'' = Some DELIVERED
   \<and> fst (updateBookingStatus_locked id (ex_store DELIVERED 4) (ex_redis :: unit redis_state)
            5000 ''5000-0.1'' ''AC1'' CANCELLED None None None)
       = Inr (Acknowledgement \<lparr>ack_success = True, ack_refId = ''AC1'', ack_status = CANCELLED\<rparr>)
   \<and> status_of (fst (snd (updateBookingStatus_locked id (ex_store DELIVERED 4)
            (ex_redis :: unit redis_state) 5000 ''5000-0.1'' ''AC1'' CANCELLED None None None)))
         ''AC1'' = Some CANCELLED
   \<and> version_of (fst (snd (updateBookingStatus_locked id (ex_store DELIVERED 4)
            (ex_redis :: unit redis_state) 5000 ''5000-0.1'' ''AC1'' CANCELLED None None None)))
         ''AC1'' = Some 5"
proof -
  have u: "updateBookingStatus_locked id (ex_store DELIVERED 4) (ex_redis :: unit redis_state)
            5000 ''5000-0.1'' ''AC1'' CANCELLED None None None
           = (Inr (Acknowledgement \<lparr>ack_success = True, ack_refId = ''AC1'', ack_status = CANCELLED\<rparr>),
              (ex_store CANCELLED 5)\<lparr>timeline_events := timeline_events (ex_store CANCELLED 5) @
                 [\<lparr>te_id = 2, te_booking_id = 1, te_event_type = CANCELLED, te_location = None,
                   te_flight_id = None, te_description = ''Status updated to CANCELLED'',
                   te_created_at = 5\<rparr>],
                next_event_id := 3\<rparr>,
              ex_redis\<lparr>calls := [SET_NX ''lock:booking_AC1'', DEL ''booking:AC1'',
                                GET ''lock:booking_AC1'', EVAL ''lock:booking_AC1'']\<rparr>)"
    using locked_success_full[where r = "ex_redis :: unit redis_state" and fresh = "''5000-0.1''"
        and st = CANCELLED and now = 5000 and location = None and flightId = None
        and description = None,
        OF ex_redis_connected ex_redis_answers _ ex_redis_no_key ex_select[of DELIVERED 4]]
    by (simp add: too_long_def ex_booking_def ex_store_def bumped_def new_event_def
        description_or_default_def ex_redis_def)
  show ?thesis
    unfolding u
    by (simp add: ex_status) (simp add: status_of_def version_of_def select_booking_def ex_store_def ex_booking_def)
qed

text \<open>
  The service without lock does what the claim says: the cancellation of a delivered
  booking fails with the business-rule error, and the store and the cache client are
  exactly as before, status and version included.
\<close>

lemma cancel_delivered_rejected_direct:
  "status_of db refId = Some DELIVERED \<Longrightarrow>
     updateBookingStatus_direct db r now refId CANCELLED location description
       = (Inl CannotCancelDelivered, db, r)"
  by (rule direct_cancel_delivered)


lemma direct_written_first:
  assumes sel: "select_booking refId db = booking # rest"
  shows "select_booking refId (direct_written db booking now refId st location description)
         = booking\<lparr>b_status := st\<rparr>
           # map (\<lambda>b. if b_ref_id b = refId then b\<lparr>b_status := st\<rparr> else b) rest"
  using select_booking_mem[OF sel] sel by (simp add: select_direct_written)







section \<open>Cache coherence of the booking entry\<close>

lemma coherent_event:
  "cache_coherent hy db (apply_event e r) refId = cache_coherent hy db r refId"
  by (cases e) (simp_all add: cache_coherent_def on_connect_def on_disconnect_def)

lemma coherent_events:
  "cache_coherent hy db (fold apply_event events r) refId = cache_coherent hy db r refId"
  by (induction events arbitrary: r) (simp_all add: coherent_event)

lemma locked_read_coherent:
  assumes "cache_coherent hydrate_locked db r refId"
    and "select_booking refId db = booking # rest"
  shows "fst (getBookingHistory_locked db r now refId) = Some (hydrate_locked db booking)
       \<and> cache_coherent hydrate_locked db (snd (getBookingHistory_locked db r now refId)) refId"
  using assms
  by (auto simp add: getBookingHistory_locked_def getCachedBooking_def redis_get_def lookup_def
      cacheBooking_def redis_set_def called_def cache_coherent_def Let_def
      split: option.splits redis_val.splits prod.splits if_splits)

lemma direct_read_coherent:
  assumes "cache_coherent hydrate_direct db r refId"
    and "select_booking refId db = booking # rest"
  shows "fst (getBookingHistory_direct db r now refId forceDb) = Some (hydrate_direct db booking)
       \<and> cache_coherent hydrate_direct db (snd (getBookingHistory_direct db r now refId forceDb)) refId"
  using assms
  by (auto simp add: getBookingHistory_direct_def query_history_direct_def getCachedBooking_def
      redis_get_def lookup_def
      cacheBooking_def redis_set_def called_def cache_coherent_def Let_def
      split: option.splits redis_val.splits prod.splits if_splits)

lemma reads_locked_coherent:
  assumes "cache_coherent hydrate_locked db r refId"
    and "select_booking refId db = booking # rest"
  shows "list_all (\<lambda>h. h = Some (hydrate_locked db booking)) (reads_locked db r refId schedule)"
  using assms(1)
proof (induction schedule arbitrary: r)
  case Nil
  then show ?case by simp
next
  case (Cons step schedule)
  obtain events now where step: "step = (events, now)" by (cases step)
  from Cons.prems have c: "cache_coherent hydrate_locked db (fold apply_event events r) refId"
    by (simp add: coherent_events)
  from locked_read_coherent[OF c assms(2), of now] Cons.IH
  show ?case unfolding step by (auto split: prod.splits)
qed

lemma reads_direct_coherent:
  assumes "cache_coherent hydrate_direct db r refId"
    and "select_booking refId db = booking # rest"
  shows "list_all (\<lambda>h. h = Some (hydrate_direct db booking)) (reads_direct db r refId schedule)"
  using assms(1)
proof (induction schedule arbitrary: r)
  case Nil
  then show ?case by simp
next
  case (Cons step schedule)
  obtain events now where step: "step = (events, now)" by (cases step)
  from Cons.prems have c: "cache_coherent hydrate_direct db (fold apply_event events r) refId"
    by (simp add: coherent_events)
  from direct_read_coherent[OF c assms(2), of now False] Cons.IH
  show ?case unfolding step by (auto split: prod.splits)
qed

text \<open>Reads while the cache client stays unavailable.\<close>

lemma direct_read_unavailable:
  assumes "\<not> isConnected r \<or> failing r"
    and "select_booking refId db = booking # rest"
  shows "fst (getBookingHistory_direct db r now refId forceDb) = Some (hydrate_direct db booking)
       \<and> (\<not> isConnected (snd (getBookingHistory_direct db r now refId forceDb))
           \<or> failing (snd (getBookingHistory_direct db r now refId forceDb)))
       \<and> kv (snd (getBookingHistory_direct db r now refId forceDb)) = kv r"
  using assms
  by (auto simp add: getBookingHistory_direct_def query_history_direct_def getCachedBooking_def
      redis_get_def cacheBooking_def redis_set_def called_def Let_def)

lemma reads_direct_unavailable:
  assumes "\<not> isConnected r \<or> failing r"
    and "select_booking refId db = booking # rest"
  shows "list_all (\<lambda>h. h = Some (hydrate_direct db booking))
           (reads_direct db r refId (map (Pair []) moments))"
  using assms(1)
proof (induction moments arbitrary: r)
  case Nil
  then show ?case by simp
next
  case (Cons now moments)
  from direct_read_unavailable[OF Cons.prems assms(2), of now False] Cons.IH
  show ?case by (auto split: prod.splits)
qed


lemma tx_success_conditions:
  assumes "updateBookingStatus_tx id now refId st location flightId description (beginTransaction db) r
           = (Inr a, c, r1)"
  shows "\<exists>booking rest. select_booking refId db = booking # rest
           \<and> \<not> (st = CANCELLED \<and> b_status booking = ARRIVED)
           \<and> b_version booking < 2147483647
           \<and> \<not> too_long 10 location \<and> \<not> too_long 50 flightId"
  using assms
  by (auto simp add: updateBookingStatus_tx_def beginTransaction_def others_def Let_def
      update_status_versioned_def insert_timeline_event_def
      split: list.splits if_splits sum.splits prod.splits)

lemma locked_success_conditions:
  assumes u: "updateBookingStatus_locked id db r now fresh refId st location flightId description
           = (Inr a, db', r')"
  shows "isConnected r \<and> \<not> failing r \<and> fresh \<noteq> []
       \<and> lookup r now (''lock:'' @ (''booking_'' @ refId)) = None
       \<and> (\<exists>booking rest. select_booking refId db = booking # rest
           \<and> \<not> (st = CANCELLED \<and> b_status booking = ARRIVED)
           \<and> b_version booking < 2147483647
           \<and> \<not> too_long 10 location \<and> \<not> too_long 50 flightId)"
proof -
  have c: "isConnected r"
  proof (rule ccontr)
    assume "\<not> isConnected r"
    then have "acquireLock r now fresh (''booking_'' @ refId) 30 None = (None, r)"
      by (simp add: acquireLock_def)
    from lock_refused[OF this, of id db st location flightId description] u show False by simp
  qed
  have f: "\<not> failing r"
  proof
    assume "failing r"
    with c have "acquireLock r now fresh (''booking_'' @ refId) 30 None
                 = (None, called (SET_NX (''lock:'' @ (''booking_'' @ refId))) r)"
      by (simp add: acquireLock_def Let_def)
    from lock_refused[OF this, of id db st location flightId description] u show False by simp
  qed
  have l: "lookup r now (''lock:'' @ (''booking_'' @ refId)) = None"
  proof (rule ccontr)
    assume "lookup r now (''lock:'' @ (''booking_'' @ refId)) \<noteq> None"
    then obtain holder where "lookup r now (''lock:'' @ (''booking_'' @ refId)) = Some holder" by auto
    from lock_refused[OF acquireLock_held[OF c this, of fresh 30 None], of id db st location flightId description] u
    show False by simp
  qed
  note a = acquire_granted[OF c f l, of fresh 30]
  have n: "fresh \<noteq> []"
  proof
    assume "fresh = []"
    with a locked_empty_token[of r now fresh refId _ id db st location flightId description] u
    show False by simp
  qed
  from locked_granted[OF a n, of id db st location flightId description] u
  have "fst (transaction (updateBookingStatus_tx id now refId st location flightId description) db
          (called (SET_NX (''lock:'' @ (''booking_'' @ refId)))
                (r\<lparr>kv := (kv r)(''lock:'' @ (''booking_'' @ refId) \<mapsto> (RawString (fresh @ '':'' @ dec now), now + 30 * 1000))\<rparr>)))
        = Inr a" by simp
  then obtain c1 r2 where "updateBookingStatus_tx id now refId st location flightId description (beginTransaction db)
          (called (SET_NX (''lock:'' @ (''booking_'' @ refId)))
                (r\<lparr>kv := (kv r)(''lock:'' @ (''booking_'' @ refId) \<mapsto> (RawString (fresh @ '':'' @ dec now), now + 30 * 1000))\<rparr>))
        = (Inr a, c1, r2)"
    by (auto simp add: transaction_def split: prod.splits sum.splits)
  from tx_success_conditions[OF this] c f l n show ?thesis by blast
qed

lemma select_after_locked_success:
  assumes sel: "select_booking refId db = booking # rest"
  shows "select_booking refId (db\<lparr>bookings := bumped st refId (b_version booking) (bookings db),
                timeline_events := evs, next_event_id := n\<rparr>)
         = booking\<lparr>b_status := st, b_version := b_version booking + 1\<rparr>
           # bumped st refId (b_version booking) rest"
  using select_booking_mem[OF sel] sel
  by (simp add: select_booking_def select_bumped) (simp add: bumped_def)

lemma locked_success_leaves:
  assumes u: "updateBookingStatus_locked id db r now fresh refId st location flightId description
           = (Inr a, db', r')"
  shows "kv r' (''booking:'' @ refId) = None
       \<and> (\<exists>booking rest. select_booking refId db' = booking # rest \<and> b_status booking = st)"
proof -
  from locked_success_conditions[OF u] obtain booking rest where
    c: "isConnected r" "\<not> failing r" "fresh \<noteq> []"
       "lookup r now (''lock:'' @ (''booking_'' @ refId)) = None"
       "select_booking refId db = booking # rest"
       "\<not> (st = CANCELLED \<and> b_status booking = ARRIVED)"
       "b_version booking < 2147483647"
       "\<not> too_long 10 location" "\<not> too_long 50 flightId"
    by blast
  from locked_success_full[OF c, where description = description] u
  have db': "db' = db\<lparr>bookings := bumped st refId (b_version booking) (bookings db),
                timeline_events := timeline_events db @
                  [new_event db (b_id booking) st location flightId
                     (description_or_default description st) (now div 1000)],
                next_event_id := Suc (next_event_id db)\<rparr>"
    and r': "r' = r\<lparr>kv := (kv r)(''booking:'' @ refId := None, ''lock:'' @ (''booking_'' @ refId) := None),
              calls := calls r @ [SET_NX (''lock:'' @ (''booking_'' @ refId)), DEL (''booking:'' @ refId),
                                  GET (''lock:'' @ (''booking_'' @ refId)), EVAL (''lock:'' @ (''booking_'' @ refId))]\<rparr>"
    by simp_all
  have "kv r' (''booking:'' @ refId) = None" unfolding r' by simp
  moreover have "\<exists>booking rest. select_booking refId db' = booking # rest \<and> b_status booking = st"
    unfolding db' select_after_locked_success[OF c(5)] by simp
  ultimately show ?thesis by simp
qed

lemma coherent_after_invalidate:
  assumes "isConnected r" "\<not> failing r"
  shows "cache_coherent hy db (snd (invalidateBookingCache r refId)) refId"
  using assms by (simp add: invalidateBookingCache_def redis_del_def called_def cache_coherent_def)

lemma coherent_absent: "kv r (''booking:'' @ refId) = None \<Longrightarrow> cache_coherent hy db r refId"
  by (simp add: cache_coherent_def)

lemma direct_success_leaves:
  assumes u: "updateBookingStatus_direct db r now refId st location description = (Inr a, db', r')"
  shows "(\<exists>booking rest. select_booking refId db' = booking # rest \<and> b_status booking = st)
       \<and> (isConnected r \<and> \<not> failing r \<longrightarrow> cache_coherent hydrate_direct db' r' refId)
       \<and> (\<not> isConnected r \<or> failing r \<longrightarrow> \<not> isConnected r' \<or> failing r')"
  using u
proof (cases rule: direct_cases)
  case (failed e)
  then show ?thesis by simp
next
  case (written booking rest)
  from direct_written_first[OF written(1), of now st location description] written(4)
  have s: "select_booking refId db' = booking\<lparr>b_status := st\<rparr>
           # map (\<lambda>b. if b_ref_id b = refId then b\<lparr>b_status := st\<rparr> else b) rest"
    by simp
  have 1: "\<exists>booking rest. select_booking refId db' = booking # rest \<and> b_status booking = st"
    unfolding s by simp
  have 2: "cache_coherent hydrate_direct db' r' refId" if "isConnected r \<and> \<not> failing r"
    using direct_read_coherent[OF coherent_after_invalidate s, of r now True] that written(6)
    by simp
  have 3: "\<not> isConnected r' \<or> failing r'" if "\<not> isConnected r \<or> failing r"
  proof -
    from that have "snd (invalidateBookingCache r refId) = r \<or> snd (invalidateBookingCache r refId) = called (DEL (''booking:'' @ refId)) r"
      by (auto simp add: invalidateBookingCache_def redis_del_def)
    with that have "\<not> isConnected (snd (invalidateBookingCache r refId)) \<or> failing (snd (invalidateBookingCache r refId))"
      by (auto simp add: called_def)
    from direct_read_unavailable[OF this s, of now True] written(6) show ?thesis by simp
  qed
  from 1 2 3 show ?thesis by blast
qed


lemma list_all_status:
  assumes "list_all (\<lambda>h. h = Some x) hs" and "f x = st"
  shows "list_all (\<lambda>h. map_option f h = Some st) hs"
  using assms by (induction hs) auto

text \<open>
  An update with no other request between its steps. After a successful
  \<open>updateBookingStatus\<close> of the lock-protected service the cache holds no entry for
  the reference code and every later \<open>getBookingHistory\<close> of it returns the new
  status, whatever the cache client's connection does between the reads. The same holds
  for the service without lock when the cache client was connected and answering during
  the update. When it was not, the old entry is neither deleted nor replaced, and the
  later reads return the new status as long as the client's condition does not change.
\<close>

lemma update_alone_no_stale_read:
  "(updateBookingStatus_locked id db r now fresh refId st location flightId description
      = (Inr a, db', r')
     \<longrightarrow> kv r' (''booking:'' @ refId) = None
         \<and> list_all (\<lambda>h. map_option h_status h = Some st) (reads_locked db' r' refId schedule))
   \<and> (updateBookingStatus_direct db2 r2 now2 refId2 st2 location2 description2 = (Inr a2, db2', r2')
     \<longrightarrow> (isConnected r2 \<and> \<not> failing r2
            \<longrightarrow> list_all (\<lambda>h. map_option (\<lambda>x. b_status (d_booking x)) h = Some st2)
                  (reads_direct db2' r2' refId2 schedule2))
         \<and> list_all (\<lambda>h. map_option (\<lambda>x. b_status (d_booking x)) h = Some st2)
             (reads_direct db2' r2' refId2 (map (Pair []) moments)))"
proof (intro conjI impI)
  assume u: "updateBookingStatus_locked id db r now fresh refId st location flightId description
      = (Inr a, db', r')"
  from locked_success_leaves[OF u] obtain booking rest where
    k: "kv r' (''booking:'' @ refId) = None"
    and s: "select_booking refId db' = booking # rest" and b: "b_status booking = st"
    by blast
  show "kv r' (''booking:'' @ refId) = None" by (rule k)
  have "h_status (hydrate_locked db' booking) = st"
    using b by (simp add: hydrate_locked_def)
  with reads_locked_coherent[OF coherent_absent[OF k] s, of schedule]
  show "list_all (\<lambda>h. map_option h_status h = Some st) (reads_locked db' r' refId schedule)"
    by (rule list_all_status)
next
  assume u: "updateBookingStatus_direct db2 r2 now2 refId2 st2 location2 description2 = (Inr a2, db2', r2')"
  from direct_success_leaves[OF u] obtain booking rest where
    s: "select_booking refId2 db2' = booking # rest" and b: "b_status booking = st2"
    and c: "isConnected r2 \<and> \<not> failing r2 \<longrightarrow> cache_coherent hydrate_direct db2' r2' refId2"
    and n: "\<not> isConnected r2 \<or> failing r2 \<longrightarrow> \<not> isConnected r2' \<or> failing r2'"
    by blast
  have hb: "(\<lambda>x. b_status (d_booking x)) (hydrate_direct db2' booking) = st2"
    using b by (simp add: hydrate_direct_def)
  {
    assume "isConnected r2 \<and> \<not> failing r2"
    with c have "cache_coherent hydrate_direct db2' r2' refId2" by simp
    from reads_direct_coherent[OF this s, of schedule2] hb
    show "list_all (\<lambda>h. map_option (\<lambda>x. b_status (d_booking x)) h = Some st2)
                  (reads_direct db2' r2' refId2 schedule2)"
      by (rule list_all_status)
  }
  show "list_all (\<lambda>h. map_option (\<lambda>x. b_status (d_booking x)) h = Some st2)
             (reads_direct db2' r2' refId2 (map (Pair []) moments))"
  proof (cases "isConnected r2 \<and> \<not> failing r2")
    case True
    with c have "cache_coherent hydrate_direct db2' r2' refId2" by simp
    from reads_direct_coherent[OF this s, of "map (Pair []) moments"] hb
    show ?thesis by (rule list_all_status)
  next
    case False
    with n have "\<not> isConnected r2' \<or> failing r2'" by simp
    from reads_direct_unavailable[OF this s, of moments] hb
    show ?thesis by (rule list_all_status)
  qed
qed

lemma ex_redis_after_read_eq:
  "ex_redis_after_read
   = ex_redis\<lparr>kv := [''booking:AC1'' \<mapsto>
                      (Serialized (Some (hydrate_direct (ex_store BOOKED 1) (ex_booking BOOKED 1))),
                       601000)],
              calls := [GET ''booking:AC1'', SETEX ''booking:AC1'']\<rparr>"
  by (simp add: ex_redis_after_read_def getBookingHistory_direct_def getCachedBooking_def
      redis_get_def lookup_def query_history_direct_def ex_select cacheBooking_def redis_set_def
      called_def ex_redis_def Let_def)

text \<open>
  Booking AC1 is cached as BOOKED. The cache client is disconnected while the service
  without lock marks the booking as departed (the call succeeds, against the store
  alone), then reconnects: the next \<open>getBookingHistory\<close>, within the ten minutes of
  the entry, returns the cached aggregate with status BOOKED.
\<close>

lemma stale_read_after_update_during_outage:
  "\<not> isl (fst (updateBookingStatus_direct (ex_store BOOKED 1) (on_disconnect ex_redis_after_read)
                  5000 ''AC1'' DEPARTED None None))
   \<and> status_of (fst (snd (updateBookingStatus_direct (ex_store BOOKED 1)
                  (on_disconnect ex_redis_after_read) 5000 ''AC1'' DEPARTED None None))) ''AC1''
       = Some DEPARTED
   \<and> map_option (\<lambda>x. b_status (d_booking x))
        (fst (getBookingHistory_direct
               (fst (snd (updateBookingStatus_direct (ex_store BOOKED 1)
                  (on_disconnect ex_redis_after_read) 5000 ''AC1'' DEPARTED None None)))
               (on_connect (snd (snd (updateBookingStatus_direct (ex_store BOOKED 1)
                  (on_disconnect ex_redis_after_read) 5000 ''AC1'' DEPARTED None None))))
               6000 ''AC1'' False))
       = Some BOOKED"
proof -
  let ?w = "direct_written (ex_store BOOKED 1) (ex_booking BOOKED 1) 5000 ''AC1'' DEPARTED None None"
  let ?r0 = "on_disconnect ex_redis_after_read"
  have s: "select_booking ''AC1'' ?w = [ex_booking DEPARTED 1]"
    using direct_written_first[where now = 5000 and st = DEPARTED and location = None
        and description = None, OF ex_select[of BOOKED 1]]
    by (simp add: ex_booking_def)
  have off: "\<not> isConnected ?r0" by (simp add: on_disconnect_def)
  have r: "snd (getBookingHistory_direct ?w (snd (invalidateBookingCache ?r0 ''AC1'')) 5000 ''AC1'' True)
           = ?r0"
    using off
    by (simp add: invalidateBookingCache_def redis_del_def getBookingHistory_direct_def
        query_history_direct_def s cacheBooking_def redis_set_def Let_def)
  have u: "updateBookingStatus_direct (ex_store BOOKED 1) ?r0 5000 ''AC1'' DEPARTED None None
        = (Inr (Aggregate (fst (getBookingHistory_direct ?w
                    (snd (invalidateBookingCache ?r0 ''AC1'')) 5000 ''AC1'' True))),
            ?w, ?r0)"
    using direct_success[where st = DEPARTED and location = None and r = ?r0 and now = 5000
        and description = None, OF ex_select[of BOOKED 1]] r
    by (simp add: too_long_def)
  have g: "fst (getBookingHistory_direct ?w (on_connect ?r0) 6000 ''AC1'' False)
           = Some (hydrate_direct (ex_store BOOKED 1) (ex_booking BOOKED 1))"
    unfolding ex_redis_after_read_eq
    by (simp add: getBookingHistory_direct_def getCachedBooking_def redis_get_def lookup_def
        on_connect_def on_disconnect_def ex_redis_def called_def)
  show ?thesis
    unfolding u
    by (simp add: g status_of_def s) (simp add: hydrate_direct_def ex_booking_def)
qed


lemma length_reads_locked: "length (reads_locked db r refId schedule) = length schedule"
  by (induction schedule arbitrary: r) (auto split: prod.splits)

lemma length_reads_direct: "length (reads_direct db r refId schedule) = length schedule"
  by (induction schedule arbitrary: r) (auto split: prod.splits)

lemma update_alone_no_stale_read_example:
  "list_all (\<lambda>h. map_option h_status h = Some DEPARTED)
     (reads_locked
        (fst (snd (updateBookingStatus_locked id (ex_store BOOKED 1)
                     (ex_redis :: history_locked redis_state) 5000 ''5000-0.1'' ''AC1'' DEPARTED
                     (Some ''DEL'') None None)))
        (snd (snd (updateBookingStatus_locked id (ex_store BOOKED 1)
                     (ex_redis :: history_locked redis_state) 5000 ''5000-0.1'' ''AC1'' DEPARTED
                     (Some ''DEL'') None None)))
        ''AC1'' ex_schedule)
   \<and> length (reads_locked
        (fst (snd (updateBookingStatus_locked id (ex_store BOOKED 1)
                     (ex_redis :: history_locked redis_state) 5000 ''5000-0.1'' ''AC1'' DEPARTED
                     (Some ''DEL'') None None)))
        (snd (snd (updateBookingStatus_locked id (ex_store BOOKED 1)
                     (ex_redis :: history_locked redis_state) 5000 ''5000-0.1'' ''AC1'' DEPARTED
                     (Some ''DEL'') None None)))
        ''AC1'' ex_schedule) = 3
   \<and> list_all (\<lambda>h. map_option (\<lambda>x. b_status (d_booking x)) h = Some DEPARTED)
     (reads_direct
        (fst (snd (updateBookingStatus_direct (ex_store BOOKED 1) ex_redis_after_read 5000 ''AC1''
                     DEPARTED None None)))
        (snd (snd (updateBookingStatus_direct (ex_store BOOKED 1) ex_redis_after_read 5000 ''AC1''
                     DEPARTED None None)))
        ''AC1'' ex_schedule)"
proof -
  let ?L = "updateBookingStatus_locked id (ex_store BOOKED 1)
                     (ex_redis :: history_locked redis_state) 5000 ''5000-0.1'' ''AC1'' DEPARTED
                     (Some ''DEL'') None None"
  let ?D = "updateBookingStatus_direct (ex_store BOOKED 1) ex_redis_after_read 5000 ''AC1''
                     DEPARTED None None"
  have l: "?L = (Inr (Acknowledgement \<lparr>ack_success = True, ack_refId = ''AC1'', ack_status = DEPARTED\<rparr>),
                 fst (snd ?L), snd (snd ?L))"
    using locked_success[where fresh = "''5000-0.1''" and st = DEPARTED and now = 5000
        and location = "Some ''DEL''" and flightId = None and description = None,
        OF ex_redis_connected[where ?'a = history_locked] ex_redis_answers _ ex_redis_no_key
           ex_select[of BOOKED 1]]
    by (simp add: ex_booking_def too_long_def prod_eq_iff)
  have d: "?D = (Inr (Aggregate (fst (getBookingHistory_direct
                    (direct_written (ex_store BOOKED 1) (ex_booking BOOKED 1) 5000 ''AC1'' DEPARTED None None)
                    (snd (invalidateBookingCache ex_redis_after_read ''AC1'')) 5000 ''AC1'' True))),
                 fst (snd ?D), snd (snd ?D))"
    using direct_success[where st = DEPARTED and location = None and r = ex_redis_after_read
        and now = 5000 and description = None, OF ex_select[of BOOKED 1]]
    by (simp add: too_long_def)
  have on: "isConnected ex_redis_after_read \<and> \<not> failing ex_redis_after_read"
    unfolding ex_redis_after_read_eq by (simp add: ex_redis_def)
  from update_alone_no_stale_read[where db = "ex_store BOOKED 1"
      and r = "ex_redis :: history_locked redis_state" and now = 5000 and fresh = "''5000-0.1''"
      and refId = "''AC1''" and st = DEPARTED and location = "Some ''DEL''" and flightId = None
      and description = None and db' = "fst (snd ?L)" and r' = "snd (snd ?L)"
      and schedule = ex_schedule, THEN conjunct1] l
  have 1: "list_all (\<lambda>h. map_option h_status h = Some DEPARTED)
             (reads_locked (fst (snd ?L)) (snd (snd ?L)) ''AC1'' ex_schedule)"
    by simp
  from update_alone_no_stale_read[where ?db2.0 = "ex_store BOOKED 1"
      and ?r2.0 = ex_redis_after_read and ?now2.0 = 5000
      and ?refId2.0 = "''AC1''" and ?st2.0 = DEPARTED and ?location2.0 = None
      and ?description2.0 = None and ?db2' = "fst (snd ?D)" and ?r2' = "snd (snd ?D)"
      and ?schedule2.0 = ex_schedule, THEN conjunct2] d on
  have 2: "list_all (\<lambda>h. map_option (\<lambda>x. b_status (d_booking x)) h = Some DEPARTED)
             (reads_direct (fst (snd ?D)) (snd (snd ?D)) ''AC1'' ex_schedule)"
    by simp
  have "length ex_schedule = 3" by (simp add: ex_schedule_def)
  with 1 2 show ?thesis by (simp only: length_reads_locked simp_thms)
qed


section \<open>Cache coherence: a read between the deletion and the commit\<close>

lemma transaction_interleaved_alone:
  "transaction_interleaved callback (\<lambda>db s. s) = transaction callback"
  by (rule ext)+ (simp add: transaction_interleaved_def transaction_def)

lemma interleaved_alone:
  "updateBookingStatus_locked_interleaved (\<lambda>db s. s) db r now fresh refId st location flightId description
   = updateBookingStatus_locked id db r now fresh refId st location flightId description"
  unfolding updateBookingStatus_locked_interleaved_def updateBookingStatus_locked_def
      transaction_interleaved_alone ..

lemma direct_interleaved_alone:
  "updateBookingStatus_direct_interleaved (\<lambda>db s. s) db r now refId st location description
   = updateBookingStatus_direct db r now refId st location description"
  unfolding updateBookingStatus_direct_interleaved_def updateBookingStatus_direct_def
      transaction_interleaved_alone ..

lemma locked_interleaved_success:
  assumes "isConnected r" "\<not> failing r" "fresh \<noteq> []"
    and free: "lookup r now (''lock:'' @ (''booking_'' @ refId)) = None"
    and sel: "select_booking refId db = booking # rest"
    and rule: "\<not> (st = CANCELLED \<and> b_status booking = ARRIVED)"
    and ver: "b_version booking < 2147483647"
    and fits: "\<not> too_long 10 location" "\<not> too_long 50 flightId"
  shows "updateBookingStatus_locked_interleaved meanwhile db r now fresh refId st location flightId
           description
         = (Inr (Acknowledgement \<lparr>ack_success = True, ack_refId = refId, ack_status = st\<rparr>),
            db\<lparr>bookings := bumped st refId (b_version booking) (bookings db),
                timeline_events := timeline_events db @
                  [new_event db (b_id booking) st location flightId
                     (description_or_default description st) (now div 1000)],
                next_event_id := Suc (next_event_id db)\<rparr>,
            snd (releaseLock id
                   (meanwhile db
                      (snd (invalidateBookingCache
                              (called (SET_NX (''lock:'' @ (''booking_'' @ refId)))
                                 (r\<lparr>kv := (kv r)(''lock:'' @ (''booking_'' @ refId)
                                     \<mapsto> (RawString (fresh @ '':'' @ dec now), now + 30 * 1000))\<rparr>))
                              refId)))
                   now (''booking_'' @ refId) fresh))"
proof -
  note m = select_booking_mem[OF sel]
  then have ne: "filter (\<lambda>b. b_ref_id b = refId \<and> b_version b = b_version booking) (bookings (id db)) \<noteq> []"
    by (auto simp: filter_empty_conv)
  from m have fk: "b_id booking \<in> set (map b_id (bookings db))" by auto
  have ins: "insert_timeline_event (b_id booking) st location flightId
                              (description_or_default description st) (now div 1000)
                  (db\<lparr>bookings := bumped st refId (b_version booking) (bookings db)\<rparr>)
        = Inr (db\<lparr>bookings := bumped st refId (b_version booking) (bookings db),
                timeline_events := timeline_events db @
                  [new_event db (b_id booking) st location flightId
                     (description_or_default description st) (now div 1000)],
                next_event_id := Suc (next_event_id db)\<rparr>)"
    using fits fk by (simp add: insert_timeline_event_def bumped_ids new_event_def)
  have tx: "updateBookingStatus_tx id now refId st location flightId description (beginTransaction db) r1
        = (Inr (Acknowledgement \<lparr>ack_success = True, ack_refId = refId, ack_status = st\<rparr>),
           \<lparr>committed = db, working = db\<lparr>bookings := bumped st refId (b_version booking) (bookings db),
                timeline_events := timeline_events db @
                  [new_event db (b_id booking) st location flightId
                     (description_or_default description st) (now div 1000)],
                next_event_id := Suc (next_event_id db)\<rparr>\<rparr>, snd (invalidateBookingCache r1 refId))"
    for r1 :: "'a redis_state"
    using tx_update_then[where env = id, OF sel rule ne ver, of now location flightId description r1] ins
    by simp
  have a: "acquireLock r now fresh (''booking_'' @ refId) 30 None
         = (Some fresh, called (SET_NX (''lock:'' @ (''booking_'' @ refId)))
                (r\<lparr>kv := (kv r)(''lock:'' @ (''booking_'' @ refId) \<mapsto> (RawString (fresh @ '':'' @ dec now), now + 30 * 1000))\<rparr>))"
    using assms(1,2) free by (rule acquire_granted)
  show ?thesis
    using assms(3) a
    by (simp add: updateBookingStatus_locked_interleaved_def transaction_interleaved_def tx commit_def
        Let_def split: prod.splits)
qed

lemma ex_interleaved_update_eq:
  "ex_interleaved_update
   = (Inr (Acknowledgement \<lparr>ack_success = True, ack_refId = ''AC1'', ack_status = DEPARTED\<rparr>),
      (ex_store BOOKED 1)\<lparr>bookings := bumped DEPARTED ''AC1'' 1 (bookings (ex_store BOOKED 1)),
                timeline_events := timeline_events (ex_store BOOKED 1) @
                  [new_event (ex_store BOOKED 1) 1 DEPARTED (Some ''DEL'') None
                     (description_or_default None DEPARTED) 5],
                next_event_id := Suc (next_event_id (ex_store BOOKED 1))\<rparr>,
      \<lparr>isConnected = True, failing = False,
       kv = [''booking:AC1'' \<mapsto> (Serialized (Some (hydrate_locked (ex_store BOOKED 1) (ex_booking BOOKED 1))), 605001)],
       calls = [SET_NX ''lock:booking_AC1'', DEL ''booking:AC1'', GET ''booking:AC1'', SETEX ''booking:AC1'',
                GET ''lock:booking_AC1'', EVAL ''lock:booking_AC1'']\<rparr>)"
proof -
  have b: "b_id (ex_booking BOOKED 1) = 1" "b_version (ex_booking BOOKED 1) = 1"
      "b_status (ex_booking BOOKED 1) = BOOKED"
    by (simp_all add: ex_booking_def)
  have r: "snd (releaseLock id
                   (concurrent_read (ex_store BOOKED 1)
                      (snd (invalidateBookingCache
                              (called (SET_NX (''lock:'' @ (''booking_'' @ ''AC1'')))
                                 (ex_redis\<lparr>kv := (kv ex_redis)(''lock:'' @ (''booking_'' @ ''AC1'')
                                     \<mapsto> (RawString (''8-0.1'' @ '':'' @ dec 5000), 5000 + 30 * 1000))\<rparr>))
                              ''AC1'')))
                   5000 (''booking_'' @ ''AC1'') ''8-0.1'')
      = \<lparr>isConnected = True, failing = False,
       kv = [''booking:AC1'' \<mapsto> (Serialized (Some (hydrate_locked (ex_store BOOKED 1) (ex_booking BOOKED 1))), 605001)],
       calls = [SET_NX ''lock:booking_AC1'', DEL ''booking:AC1'', GET ''booking:AC1'', SETEX ''booking:AC1'',
                GET ''lock:booking_AC1'', EVAL ''lock:booking_AC1'']\<rparr>"
    by (simp add: concurrent_read_def invalidateBookingCache_def redis_del_def called_def ex_redis_def
        getBookingHistory_locked_def getCachedBooking_def redis_get_def lookup_def ex_select
        cacheBooking_def redis_set_def releaseLock_def lua_compare_and_delete_def Let_def)
  have "updateBookingStatus_locked_interleaved concurrent_read (ex_store BOOKED 1) ex_redis 5000
       ''8-0.1'' ''AC1'' DEPARTED (Some ''DEL'') None None
     = (Inr (Acknowledgement \<lparr>ack_success = True, ack_refId = ''AC1'', ack_status = DEPARTED\<rparr>),
      (ex_store BOOKED 1)\<lparr>bookings := bumped DEPARTED ''AC1'' (b_version (ex_booking BOOKED 1)) (bookings (ex_store BOOKED 1)),
                timeline_events := timeline_events (ex_store BOOKED 1) @
                  [new_event (ex_store BOOKED 1) (b_id (ex_booking BOOKED 1)) DEPARTED (Some ''DEL'') None
                     (description_or_default None DEPARTED) (5000 div 1000)],
                next_event_id := Suc (next_event_id (ex_store BOOKED 1))\<rparr>,
       snd (releaseLock id
                   (concurrent_read (ex_store BOOKED 1)
                      (snd (invalidateBookingCache
                              (called (SET_NX (''lock:'' @ (''booking_'' @ ''AC1'')))
                                 (ex_redis\<lparr>kv := (kv ex_redis)(''lock:'' @ (''booking_'' @ ''AC1'')
                                     \<mapsto> (RawString (''8-0.1'' @ '':'' @ dec 5000), 5000 + 30 * 1000))\<rparr>))
                              ''AC1'')))
                   5000 (''booking_'' @ ''AC1'') ''8-0.1''))"
    by (rule locked_interleaved_success[where rest = "[]"])
       (simp_all add: ex_redis_connected ex_redis_answers ex_redis_no_key ex_select b too_long_def)
  then show ?thesis
    unfolding ex_interleaved_update_def r by (simp add: b)
qed

text \<open>
  C6. The lock-protected \<open>updateBookingStatus\<close> deletes the cached entry inside the
  transaction callback, before the commit. Booking AC1 is BOOKED, nothing is cached, the
  cache client is connected and answering. While one request marks the booking as
  departed, another request's \<open>getBookingHistory\<close> falls between the deletion and the
  commit: it misses the cache, reads the committed row, still BOOKED, and caches it. The
  update then commits and succeeds, the stored status is DEPARTED, and the
  \<open>getBookingHistory\<close> calls that follow, one second and ten minutes later, return
  the cached aggregate with status BOOKED.
\<close>

theorem stale_read_after_concurrent_read:
  "fst ex_interleaved_update
     = Inr (Acknowledgement \<lparr>ack_success = True, ack_refId = ''AC1'', ack_status = DEPARTED\<rparr>)
   \<and> status_of (fst (snd ex_interleaved_update)) ''AC1'' = Some DEPARTED
   \<and> isConnected (snd (snd ex_interleaved_update))
   \<and> failing (snd (snd ex_interleaved_update)) = False
   \<and> map_option h_status
        (fst (getBookingHistory_locked (fst (snd ex_interleaved_update))
                (snd (snd ex_interleaved_update)) 6000 ''AC1'')) = Some BOOKED
   \<and> map_option h_status
        (fst (getBookingHistory_locked (fst (snd ex_interleaved_update))
                (snd (snd ex_interleaved_update)) 605000 ''AC1'')) = Some BOOKED"
proof -
  have h: "h_status (hydrate_locked db b) = b_status b" for db b
    by (simp add: hydrate_locked_def)
  have s: "status_of (fst (snd ex_interleaved_update)) ''AC1'' = Some DEPARTED"
    unfolding ex_interleaved_update_eq
    by (simp add: status_of_def select_booking_def bumped_def ex_store_def ex_booking_def)
  have r: "map_option h_status
        (fst (getBookingHistory_locked (fst (snd ex_interleaved_update))
                (snd (snd ex_interleaved_update)) now ''AC1'')) = Some BOOKED"
    if "now < 605001" for now
    unfolding ex_interleaved_update_eq using that
    by (simp add: getBookingHistory_locked_def getCachedBooking_def redis_get_def lookup_def h
        called_def) (simp add: ex_booking_def)
  show ?thesis
    using s r[of 6000] r[of 605000] by (simp add: ex_interleaved_update_eq)
qed


text \<open>
  The service without lock under the same interleaving: it deletes the entry after the
  commit, so a read made by another request before the commit changes nothing; when the
  cache client is then connected and answering, every later read returns the new status.
\<close>

lemma direct_interleaved_commutes:
  "updateBookingStatus_direct_interleaved meanwhile db r now refId st location description
   = updateBookingStatus_direct db (meanwhile db r) now refId st location description"
  by (simp add: updateBookingStatus_direct_interleaved_def updateBookingStatus_direct_def
      transaction_interleaved_def transaction_def updateBookingStatus_direct_tx_def
      beginTransaction_def commit_def rollback_def Let_def
      split: list.splits sum.splits prod.splits)

lemma direct_no_stale_read_after_concurrent_read:
  assumes "updateBookingStatus_direct_interleaved meanwhile db r now refId st location description
           = (Inr a, db', r')"
    and "isConnected (meanwhile db r)" "\<not> failing (meanwhile db r)"
  shows "list_all (\<lambda>h. map_option (\<lambda>x. b_status (d_booking x)) h = Some st)
           (reads_direct db' r' refId schedule)"
  using update_alone_no_stale_read[THEN conjunct2, of db "meanwhile db r" now refId st location description a db' r' schedule]
    assms
  by (simp add: direct_interleaved_commutes)

lemma ex_direct_no_stale_read:
  "status_of (fst (snd ex_interleaved_update_direct)) ''AC1'' = Some DEPARTED
   \<and> map_option (\<lambda>x. b_status (d_booking x))
        (fst (getBookingHistory_direct (fst (snd ex_interleaved_update_direct))
                (snd (snd ex_interleaved_update_direct)) 6000 ''AC1'' False)) = Some DEPARTED"
proof -
  let ?m = "concurrent_read_direct (ex_store BOOKED 1) ex_redis"
  have c: "isConnected ?m" "\<not> failing ?m"
    by (simp_all add: concurrent_read_direct_def getBookingHistory_direct_def getCachedBooking_def
        redis_get_def lookup_def ex_redis_def called_def query_history_direct_def ex_select
        cacheBooking_def redis_set_def Let_def)
  have b: "b_status (ex_booking BOOKED 1) = BOOKED" by (simp add: ex_booking_def)
  obtain a db' r' where u: "ex_interleaved_update_direct = (Inr a, db', r')"
    and w: "db' = direct_written (ex_store BOOKED 1) (ex_booking BOOKED 1) 5000 ''AC1'' DEPARTED (Some ''DEL'') None"
    unfolding ex_interleaved_update_direct_def direct_interleaved_commutes
    using direct_success[where db = "ex_store BOOKED 1" and booking = "ex_booking BOOKED 1" and rest = "[]"
        and refId = "''AC1''" and st = DEPARTED and location = "Some ''DEL''" and r = ?m and now = 5000
        and description = None, OF ex_select]
    by (simp add: b too_long_def)
  from direct_no_stale_read_after_concurrent_read[OF u[unfolded ex_interleaved_update_direct_def] c,
      of "[([], 6000)]"]
  have "map_option (\<lambda>x. b_status (d_booking x))
        (fst (getBookingHistory_direct db' r' 6000 ''AC1'' False)) = Some DEPARTED"
    by (simp split: prod.splits)
  moreover have "status_of db' ''AC1'' = Some DEPARTED"
    unfolding w
    by (simp add: status_of_def select_booking_def direct_written_def update_status_def ex_store_def
        ex_booking_def)
  ultimately show ?thesis by (simp add: u)
qed


section \<open>Creating a booking and reading it back\<close>























end
